theory Spec2Isabelle
  imports Main
begin

section \<open>Calendar primitives\<close>

text \<open>
  The rule sets build values of Python's \<^verbatim>\<open>datetime.date\<close>, shift them by whole days and
  use them as dictionary keys. A date is represented by its proleptic Gregorian ordinal
  (\<^verbatim>\<open>date.toordinal()\<close>: 1 is January 1 of year 1), so that adding a
  \<^verbatim>\<open>timedelta(days=n)\<close> is integer addition and two dates are equal exactly when their
  ordinals are.
\<close>

type_synonym date = int

datatype error = ValueError

abbreviation (input) JAN :: int where "JAN \<equiv> 1"
abbreviation (input) FEB :: int where "FEB \<equiv> 2"
abbreviation (input) MAR :: int where "MAR \<equiv> 3"
abbreviation (input) APR :: int where "APR \<equiv> 4"
abbreviation (input) MAY :: int where "MAY \<equiv> 5"
abbreviation (input) JUN :: int where "JUN \<equiv> 6"
abbreviation (input) JUL :: int where "JUL \<equiv> 7"
abbreviation (input) AUG :: int where "AUG \<equiv> 8"
abbreviation (input) SEP :: int where "SEP \<equiv> 9"
abbreviation (input) OCT :: int where "OCT \<equiv> 10"
abbreviation (input) NOV :: int where "NOV \<equiv> 11"
abbreviation (input) DEC :: int where "DEC \<equiv> 12"

text \<open>Weekday numbers of \<^verbatim>\<open>date.weekday()\<close> and of \<^verbatim>\<open>dateutil.relativedelta\<close>.\<close>

abbreviation (input) MO :: int where "MO \<equiv> 0"
abbreviation (input) TU :: int where "TU \<equiv> 1"
abbreviation (input) WE :: int where "WE \<equiv> 2"
abbreviation (input) TH :: int where "TH \<equiv> 3"
abbreviation (input) FR :: int where "FR \<equiv> 4"
abbreviation (input) SA :: int where "SA \<equiv> 5"
abbreviation (input) SU :: int where "SU \<equiv> 6"

definition is_leap :: "int \<Rightarrow> bool" where
  "is_leap year \<longleftrightarrow> year mod 4 = 0 \<and> (year mod 100 \<noteq> 0 \<or> year mod 400 = 0)"

definition days_before_year :: "int \<Rightarrow> int" where
  "days_before_year year =
     (let y = year - 1 in y * 365 + y div 4 - y div 100 + y div 400)"

definition DAYS_BEFORE_MONTH :: "int \<Rightarrow> int" where
  "DAYS_BEFORE_MONTH month =
     (if month = 1 then 0 else if month = 2 then 31 else if month = 3 then 59
      else if month = 4 then 90 else if month = 5 then 120 else if month = 6 then 151
      else if month = 7 then 181 else if month = 8 then 212 else if month = 9 then 243
      else if month = 10 then 273 else if month = 11 then 304 else 334)"

definition days_before_month :: "int \<Rightarrow> int \<Rightarrow> int" where
  "days_before_month year month =
     DAYS_BEFORE_MONTH month + (if month > 2 \<and> is_leap year then 1 else 0)"

text \<open>
  \<^verbatim>\<open>date(year, month, day)\<close> for a month and a day of the month that exist: the rule
  sets pass literals and table entries, and \<open>easter\<close> a day of March or April. The year
  must lie between
  \<^verbatim>\<open>MINYEAR\<close> and \<^verbatim>\<open>MAXYEAR\<close>, else the constructor raises \<^verbatim>\<open>ValueError\<close>:
  \<open>year_in_range\<close> is that check, made once by each rule set before its first date.
\<close>

definition date :: "int \<Rightarrow> int \<Rightarrow> int \<Rightarrow> date" where
  "date year month day = days_before_year year + days_before_month year month + day"

definition year_in_range :: "int \<Rightarrow> bool" where
  "year_in_range year \<longleftrightarrow> 1 \<le> year \<and> year \<le> 9999"

definition weekday :: "date \<Rightarrow> int" where
  "weekday d = (d + 6) mod 7"

definition isoweekday :: "date \<Rightarrow> int" where
  "isoweekday d = (if d mod 7 = 0 then 7 else d mod 7)"

text \<open>
  \<^verbatim>\<open>d + relativedelta(weekday=W(n))\<close>: the \<open>n\<close>-th day of the week \<open>W\<close> on or after
  \<open>d\<close> for positive \<open>n\<close>, on or before \<open>d\<close> for negative \<open>n\<close>.
\<close>

definition rd_weekday :: "int \<Rightarrow> int \<Rightarrow> date \<Rightarrow> date" where
  "rd_weekday wd n d =
     (let jumpdays = (\<bar>n\<bar> - 1) * 7 in
      if n > 0 then d + (jumpdays + (7 - weekday d + wd) mod 7)
      else d - (jumpdays + (weekday d - wd) mod 7))"

text \<open>
  \<^verbatim>\<open>dateutil.easter.easter(year)\<close> with its default method, the Western (Gregorian)
  computus of the spec's \<open>easterDate\<close>.
\<close>

definition easter :: "int \<Rightarrow> date" where
  "easter y =
     (let g = y mod 19;
          c = y div 100;
          h = (c - c div 4 - (8 * c + 13) div 25 + 19 * g + 15) mod 30;
          i = h - (h div 28) * (1 - (h div 28) * (29 div (h + 1)) * ((21 - g) div 11));
          j = (y + y div 4 + i + 2 - c + c div 4) mod 7;
          p = i - j;
          d = 1 + (p + 27 + (p + 6) div 40) mod 31;
          m = 3 + (p + 26) div 30
      in date y m d)"

section \<open>The holiday map\<close>

text \<open>
  Populating a year performs a sequence of assignments \<^verbatim>\<open>self[date] = label\<close>. A rule set
  is modelled by the assignments it performs, in execution order; none of the three rule
  sets reads the map while it populates it.
\<close>

type_synonym entry = "date \<times> string"

type_synonym holiday_map = "date \<rightharpoonup> string"

text \<open>
  Modelled from the spec: \<^verbatim>\<open>HolidayBase.__setitem__\<close> (holidays/holiday_base.py is not
  among the sources). A date maps to exactly one label; if two rules target the same
  date, the later-applied rule wins.
\<close>

definition setitem :: "entry \<Rightarrow> holiday_map \<Rightarrow> holiday_map" where
  "setitem e hm = hm(fst e \<mapsto> snd e)"

definition assign :: "entry list \<Rightarrow> holiday_map \<Rightarrow> holiday_map" where
  "assign es hm = fold setitem es hm"

text \<open>
  Modelled from the spec: the weekday helpers of \<^verbatim>\<open>HolidayBase\<close>
  (\<open>isWeekend\<close>, \<open>isSaturday\<close>, \<open>isSunday\<close>, \<open>dayOfWeek\<close>).
\<close>

definition is_monday :: "date \<Rightarrow> bool" where
  "is_monday d \<longleftrightarrow> weekday d = MO"

definition is_friday :: "date \<Rightarrow> bool" where
  "is_friday d \<longleftrightarrow> weekday d = FR"

definition is_saturday :: "date \<Rightarrow> bool" where
  "is_saturday d \<longleftrightarrow> weekday d = SA"

definition is_sunday :: "date \<Rightarrow> bool" where
  "is_sunday d \<longleftrightarrow> weekday d = SU"

definition is_weekend :: "date \<Rightarrow> bool" where
  "is_weekend d \<longleftrightarrow> weekday d = SA \<or> weekday d = SU"

text \<open>
  Modelled from the spec: \<^verbatim>\<open>HolidayBase._populate\<close>, step 1 of the rule-set order: the
  entries of the special table for the exact year, in table order.
\<close>

definition HolidayBase_populate :: "(int \<Rightarrow> (int \<times> int \<times> string) list) \<Rightarrow> int \<Rightarrow> entry list" where
  "HolidayBase_populate special_holidays year =
     map (\<lambda>(month, day, name). (date year month day, name)) (special_holidays year)"

text \<open>
  The query \<open>labelOf(date)\<close> of the spec on the outcome of populating a fresh instance:
  the error if population raised, else the label of the date or \<open>None\<close>.
\<close>

definition labelOf :: "error + holiday_map \<Rightarrow> date \<Rightarrow> error + string option" where
  "labelOf r d = map_sum id (\<lambda>hm. hm d) r"

section \<open>Hungary\<close>

text \<open>The labels are the UTF-8 encodings of the source's strings.\<close>

abbreviation U_acute :: string where "U_acute \<equiv> [CHR 0xC3, CHR 0x9A]"
abbreviation a_acute :: string where "a_acute \<equiv> [CHR 0xC3, CHR 0xA1]"
abbreviation e_acute :: string where "e_acute \<equiv> [CHR 0xC3, CHR 0xA9]"
abbreviation i_acute :: string where "i_acute \<equiv> [CHR 0xC3, CHR 0xAD]"
abbreviation o_acute :: string where "o_acute \<equiv> [CHR 0xC3, CHR 0xB3]"
abbreviation u_acute :: string where "u_acute \<equiv> [CHR 0xC3, CHR 0xBA]"
abbreviation o_uml :: string where "o_uml \<equiv> [CHR 0xC3, CHR 0xB6]"
abbreviation u_uml :: string where "u_uml \<equiv> [CHR 0xC3, CHR 0xBC]"
abbreviation o_dacute :: string where "o_dacute \<equiv> [CHR 0xC5, CHR 0x91]"

definition ujev :: string where
  "ujev = U_acute @ ''j'' @ e_acute @ ''v''"

definition elotti_pihenonap :: string where
  "elotti_pihenonap = '' el'' @ o_dacute @ ''tti pihen'' @ o_dacute @ ''nap''"

definition utani_pihenonap :: string where
  "utani_pihenonap = '' ut'' @ a_acute @ ''ni pihen'' @ o_dacute @ ''nap''"

definition nemzeti_unnep :: string where
  "nemzeti_unnep = ''Nemzeti '' @ u_uml @ ''nnep''"

definition tanacskoztarsasag :: string where
  "tanacskoztarsasag = ''A Tan'' @ a_acute @ ''csk'' @ o_uml @ ''zt'' @ a_acute @ ''rsas''
     @ a_acute @ ''g kiki'' @ a_acute @ ''lt'' @ a_acute @ ''s'' @ a_acute @ ''nak ''
     @ u_uml @ ''nnepe''"

definition felszabadulas :: string where
  "felszabadulas = ''A felszabadul'' @ a_acute @ ''s '' @ u_uml @ ''nnepe''"

definition oktoberi_forradalom :: string where
  "oktoberi_forradalom = ''A nagy okt'' @ o_acute @ ''beri szocialista forradalom ''
     @ u_uml @ ''nnepe''"

definition nagypentek :: string where
  "nagypentek = ''Nagyp'' @ e_acute @ ''ntek''"

definition husvet :: string where
  "husvet = ''H'' @ u_acute @ ''sv'' @ e_acute @ ''t''"

definition husvet_hetfo :: string where
  "husvet_hetfo = ''H'' @ u_acute @ ''sv'' @ e_acute @ ''t H'' @ e_acute @ ''tf'' @ o_dacute"

definition punkosd :: string where
  "punkosd = ''P'' @ u_uml @ ''nk'' @ o_uml @ ''sd''"

definition punkosdhetfo :: string where
  "punkosdhetfo = ''P'' @ u_uml @ ''nk'' @ o_uml @ ''sdh'' @ e_acute @ ''tf'' @ o_dacute"

definition munka_unnepe :: string where
  "munka_unnepe = ''A Munka '' @ u_uml @ ''nnepe''"

definition kenyer_unnepe :: string where
  "kenyer_unnepe = ''A keny'' @ e_acute @ ''r '' @ u_uml @ ''nnepe''"

definition allamalapitas :: string where
  "allamalapitas = ''Az '' @ a_acute @ ''llamalap'' @ i_acute @ ''t'' @ a_acute @ ''s ''
     @ u_uml @ ''nnepe''"

definition mindenszentek :: string where
  "mindenszentek = ''Mindenszentek''"

definition szenteste :: string where
  "szenteste = ''Szenteste''"

definition karacsony :: string where
  "karacsony = ''Kar'' @ a_acute @ ''csony''"

definition karacsony_masnapja :: string where
  "karacsony_masnapja = ''Kar'' @ a_acute @ ''csony m'' @ a_acute @ ''snapja''"

definition szilveszter :: string where
  "szilveszter = ''Szilveszter''"

text \<open>
  \<^verbatim>\<open>Hungary._add_with_observed_day_off(day, desc, since, before, after)\<close>. The argument
  \<open>day\<close> is always built as \<^verbatim>\<open>date(year, month, mday)\<close> at the call site and the body reads
  \<^verbatim>\<open>day.year\<close>, \<^verbatim>\<open>day.month\<close> and \<^verbatim>\<open>day.day\<close>, so it is passed by these three fields.
\<close>

definition Hungary_add_with_observed_day_off ::
  "bool \<Rightarrow> int \<Rightarrow> int \<Rightarrow> int \<Rightarrow> string \<Rightarrow> int \<Rightarrow> bool \<Rightarrow> bool \<Rightarrow> entry list" where
  "Hungary_add_with_observed_day_off observed year month mday desc since do_before do_after =
     (let day = date year month mday in
      [(day, desc)] @
      (if observed \<and> since \<le> year then
         if weekday day = TU \<and> do_before \<and> \<not> (month = JAN \<and> mday = 1)
           then [(day - 1, desc @ elotti_pihenonap)]
         else if weekday day = TH \<and> do_after
           then [(day + 1, desc @ utani_pihenonap)]
         else []
       else []))"

text \<open>
  \<^verbatim>\<open>Hungary._populate(year)\<close>. Hungary has no special table, so the inherited
  \<^verbatim>\<open>_populate\<close> assigns nothing. \<^verbatim>\<open>easter_date + rd(weekday=FR(-1))\<close> is the Friday on or
  before Easter.
\<close>

definition Hungary_populate :: "bool \<Rightarrow> int \<Rightarrow> error + entry list" where
  "Hungary_populate observed year =
     (if \<not> year_in_range year then Inl ValueError else
      let easter_date = easter year in Inr (
        \<comment> \<open>New years\<close>
        Hungary_add_with_observed_day_off observed year JAN 1 ujev 2014 True True @
        (if year \<ge> 2014 then
           if observed \<and> weekday (date year DEC 31) = MO
             then [(date year DEC 31, ujev @ elotti_pihenonap)] else []
         else []) @
        \<comment> \<open>National Day\<close>
        (if (1945 \<le> year \<and> year \<le> 1950) \<or> 1989 \<le> year
           then Hungary_add_with_observed_day_off observed year MAR 15 nemzeti_unnep 2010 True True
         else []) @
        \<comment> \<open>Soviet era\<close>
        (if 1950 \<le> year \<and> year \<le> 1989 then
           [(date year MAR 21, tanacskoztarsasag)] @
           [(date year APR 4, felszabadulas)] @
           (if year \<noteq> 1956 \<and> year \<noteq> 1989
              then [(date year NOV 7, oktoberi_forradalom)] else [])
         else []) @
        \<comment> \<open>Good Friday\<close>
        (if 2017 \<le> year then [(rd_weekday FR (-1) easter_date, nagypentek)] else []) @
        \<comment> \<open>Easter\<close>
        [(easter_date, husvet)] @
        \<comment> \<open>Second easter day\<close>
        (if 1955 \<noteq> year then [(easter_date + 1, husvet_hetfo)] else []) @
        \<comment> \<open>Pentecost\<close>
        [(easter_date + 49, punkosd)] @
        \<comment> \<open>Pentecost monday\<close>
        (if year \<le> 1952 \<or> 1992 \<le> year then [(easter_date + 50, punkosdhetfo)] else []) @
        \<comment> \<open>International Workers' Day\<close>
        (if 1946 \<le> year
           then Hungary_add_with_observed_day_off observed year MAY 1 munka_unnepe 2010 True True
         else []) @
        (if 1950 \<le> year \<and> year \<le> 1953 then [(date year MAY 2, munka_unnepe)] else []) @
        \<comment> \<open>State Foundation Day\<close>
        (if 1950 \<le> year \<and> year < 1990 then [(date year AUG 20, kenyer_unnepe)]
         else Hungary_add_with_observed_day_off observed year AUG 20 allamalapitas 2010 True True) @
        \<comment> \<open>National Day\<close>
        (if 1991 \<le> year
           then Hungary_add_with_observed_day_off observed year OCT 23 nemzeti_unnep 2010 True True
         else []) @
        \<comment> \<open>All Saints' Day\<close>
        (if 1999 \<le> year
           then Hungary_add_with_observed_day_off observed year NOV 1 mindenszentek 2010 True True
         else []) @
        \<comment> \<open>Christmas Eve\<close>
        (if observed \<and> 2010 \<le> year \<and> \<not> is_weekend (date year DEC 24)
           then [(date year DEC 24, szenteste)] else []) @
        \<comment> \<open>First christmas\<close>
        [(date year DEC 25, karacsony)] @
        \<comment> \<open>Second christmas\<close>
        (if 1955 \<noteq> year
           then Hungary_add_with_observed_day_off observed year DEC 26 karacsony_masnapja
                  2013 False True
         else []) @
        \<comment> \<open>New Year's Eve\<close>
        (if observed \<and> 2014 \<le> year \<and> weekday (date year DEC 31) = MO
           then [(date year DEC 31, szilveszter)] else [])))"

text \<open>The map of a fresh instance after the year has been populated.\<close>

definition Hungary_holidays :: "bool \<Rightarrow> int \<Rightarrow> error + holiday_map" where
  "Hungary_holidays observed year = map_sum id (\<lambda>es. assign es Map.empty) (Hungary_populate observed year)"

section \<open>US government securities market\<close>

definition USGS_get_observed :: "date \<Rightarrow> date" where
  "USGS_get_observed d =
     (let wdnum = isoweekday d in
      if wdnum = 6 then rd_weekday FR (-1) d
      else if wdnum = 7 then rd_weekday MO 1 d
      else d)"

definition USGS_set_observed_date :: "date \<Rightarrow> string \<Rightarrow> entry list" where
  "USGS_set_observed_date holiday_date name =
     (let date_obs = USGS_get_observed holiday_date in
      if date_obs = holiday_date then [(holiday_date, name)]
      else [(date_obs, name @ '' (Observed)'')])"

text \<open>
  \<^verbatim>\<open>UnitedStatesGovernmentSecurities._populate(year)\<close>. The class has no special table,
  and the body never consults \<^verbatim>\<open>self.observed\<close>: the flag is a parameter that the
  result does not depend on.
\<close>

definition USGS_populate :: "bool \<Rightarrow> int \<Rightarrow> error + entry list" where
  "USGS_populate observed year =
     (if \<not> year_in_range year then Inl ValueError else
      let nyd = date year JAN 1;
          wash = date year FEB 22;
          third_friday_after_reference = rd_weekday FR 1 (date year MAR 12 + 21);
          good_friday = easter year + (-2);
          memday = date year MAY 30;
          juneteenth = date year JUN 19;
          j4th = date year JUL 4;
          colday = date year OCT 12;
          vetday = date year NOV 11;
          xmas = date year DEC 25
      in Inr (
        \<comment> \<open>New Year's Day\<close>
        (if \<not> is_saturday nyd then USGS_set_observed_date nyd ''New Year's Day'' else []) @
        \<comment> \<open>MLK Day\<close>
        (if year \<ge> 1986
           then [(rd_weekday MO 3 (date year JAN 1), ''Martin Luther King Jr. Day'')] else []) @
        \<comment> \<open>Washington's Birthday\<close>
        (if year < 1971 then USGS_set_observed_date wash ''Washington's Birthday''
         else [(rd_weekday MO 3 (date year FEB 1), ''Washington's Birthday'')]) @
        \<comment> \<open>Good Friday\<close>
        (if good_friday \<noteq> third_friday_after_reference
           then [(good_friday, ''Good Friday'')] else []) @
        \<comment> \<open>Memorial Day\<close>
        (if year < 1971 then USGS_set_observed_date memday ''Memorial Day''
         else [(rd_weekday MO (-1) (date year MAY 31), ''Memorial Day'')]) @
        \<comment> \<open>Juneteenth\<close>
        (if year \<ge> 2021
           then USGS_set_observed_date juneteenth ''Juneteenth National Independence Day''
         else []) @
        \<comment> \<open>Independence Day\<close>
        USGS_set_observed_date j4th ''Independence Day'' @
        \<comment> \<open>Labor Day\<close>
        [(rd_weekday MO 1 (date year SEP 1), ''Labor Day'')] @
        \<comment> \<open>Columbus Day\<close>
        USGS_set_observed_date colday ''Columbus Day'' @
        \<comment> \<open>Veterans Day\<close>
        (if \<not> is_saturday vetday then USGS_set_observed_date vetday ''Veteran's Day'' else []) @
        \<comment> \<open>Thanksgiving Day\<close>
        [(rd_weekday TH 4 (date year NOV 1), ''Thanksgiving Day'')] @
        \<comment> \<open>Christmas Day\<close>
        USGS_set_observed_date xmas ''Christmas Day'' @
        \<comment> \<open>Special holidays\<close>
        (if year = 2012 then [(date year OCT 30, ''Hurricane Sandy'')] else []) @
        (if year = 2018 then [(date year DEC 5, ''Death of George H.W. Bush'')] else [])))"

definition USGS_holidays :: "bool \<Rightarrow> int \<Rightarrow> error + holiday_map" where
  "USGS_holidays observed year =
     map_sum id (\<lambda>es. assign es Map.empty) (USGS_populate observed year)"

section \<open>Thailand\<close>

text \<open>
  \<^verbatim>\<open>_ThaiLuniSolar\<close> (holidays/utils.py) is not among the sources. The rule set only
  calls its four lookups, each returning a date or \<^verbatim>\<open>None\<close>; they are a parameter of
  the model.
\<close>

record ThaiLuniSolar =
  makha_bucha_date :: "int \<Rightarrow> date option"
  visakha_bucha_date :: "int \<Rightarrow> date option"
  asarnha_bucha_date :: "int \<Rightarrow> date option"
  khao_phansa_date :: "int \<Rightarrow> date option"

text \<open>
  What the theorems below assume of the lookups for a year: each is absent or a date
  from January 1 to September 30 of that year (Makha Bucha falls in February or March,
  Visakha Bucha in May or June, Asarnha Bucha and the Buddhist Lent Day in July or August).
\<close>

definition lunisolar_window :: "ThaiLuniSolar \<Rightarrow> int \<Rightarrow> bool" where
  "lunisolar_window thls year \<longleftrightarrow>
     list_all (\<lambda>r. case r of None \<Rightarrow> True
                 | Some d \<Rightarrow> date year JAN 1 \<le> d \<and> d \<le> date year SEP 30)
       [makha_bucha_date thls year, visakha_bucha_date thls year,
        asarnha_bucha_date thls year, khao_phansa_date thls year]"

text \<open>
  A sample of the lookups: the four feast dates of 2011, and no data for any other year.
\<close>

definition thls_2011 :: ThaiLuniSolar where
  "thls_2011 =
     \<lparr> makha_bucha_date = (\<lambda>year. if year = 2011 then Some (date 2011 FEB 18) else None),
       visakha_bucha_date = (\<lambda>year. if year = 2011 then Some (date 2011 MAY 17) else None),
       asarnha_bucha_date = (\<lambda>year. if year = 2011 then Some (date 2011 JUL 15) else None),
       khao_phansa_date = (\<lambda>year. if year = 2011 then Some (date 2011 JUL 16) else None) \<rparr>"

definition thai_special_in_lieu_holidays :: string where
  "thai_special_in_lieu_holidays = ''Special In Lieu Holiday''"

definition thai_election :: string where
  "thai_election = ''Thai Election Day''"

definition thai_election_in_lieu :: string where
  "thai_election_in_lieu = ''Thai Election Day (in lieu)''"

definition thai_bridge_public_holiday :: string where
  "thai_bridge_public_holiday = ''Bridge Public Holiday''"

definition rama_ix_golden_jubilee :: string where
  "rama_ix_golden_jubilee = ''HM King Bhumibol Adulyadej's Golden Jubilee''"

definition rama_ix_sixty_accession :: string where
  "rama_ix_sixty_accession =
     ''HM King Bhumibol Adulyadej's 60th Anniversary of Accession Event''"

definition thai_military_emergency_lockdown :: string where
  "thai_military_emergency_lockdown =
     ''Emergency Lockdown (Thai Military Coup d'' @ [CHR 0x27] @ e_acute @ ''tat)''"

definition thai_political_emergency_lockdown :: string where
  "thai_political_emergency_lockdown = ''Emergency Lockdown (Thai Political Unrest)''"

definition thai_flood_2011_emergency_lockdown :: string where
  "thai_flood_2011_emergency_lockdown = ''Emergency Lockdown (2011 Thailand Floods)''"

definition rama_ix_mourning :: string where
  "rama_ix_mourning = ''Day of Mourning for HM King Bhumibol Adulyadej''"

definition rama_ix_cremation :: string where
  "rama_ix_cremation = ''HM King Bhumibol Adulyadej's Royal Cremation Ceremony''"

definition rama_x_coronation_celebrations :: string where
  "rama_x_coronation_celebrations = ''HM King Maha Vajiralongkorn's Coronation Celebrations''"

definition songkran_festival_in_lieu_covid :: string where
  "songkran_festival_in_lieu_covid = ''Songkran Festival (in lieu)''"

text \<open>\<^verbatim>\<open>Thailand.special_holidays\<close>; a year that is not a key has no entries.\<close>

definition Thailand_special_holidays :: "int \<Rightarrow> (int \<times> int \<times> string) list" where
  "Thailand_special_holidays year =
     (if year = 1992 then
        [(MAY, 18, thai_special_in_lieu_holidays),
         (DEC, 7, thai_special_in_lieu_holidays)]
      else if year = 1993 then
        [(MAR, 8, thai_special_in_lieu_holidays),
         (MAY, 3, thai_special_in_lieu_holidays),
         (OCT, 25, thai_special_in_lieu_holidays),
         (DEC, 6, thai_special_in_lieu_holidays)]
      else if year = 1994 then
        [(JAN, 3, thai_special_in_lieu_holidays),
         (MAY, 2, thai_special_in_lieu_holidays),
         (JUL, 25, thai_special_in_lieu_holidays),
         (OCT, 24, thai_special_in_lieu_holidays),
         (DEC, 12, thai_special_in_lieu_holidays)]
      else if year = 1996 then
        [(JUN, 10, rama_ix_golden_jubilee)]
      else if year = 1998 then
        [(MAY, 11, thai_special_in_lieu_holidays),
         (DEC, 7, thai_special_in_lieu_holidays)]
      else if year = 1999 then
        [(MAY, 3, thai_special_in_lieu_holidays),
         (MAY, 31, thai_special_in_lieu_holidays),
         (OCT, 25, thai_special_in_lieu_holidays),
         (DEC, 6, thai_special_in_lieu_holidays)]
      else if year = 2000 then
        [(JAN, 3, thai_special_in_lieu_holidays),
         (FEB, 21, thai_special_in_lieu_holidays),
         (AUG, 14, thai_special_in_lieu_holidays),
         (DEC, 11, thai_special_in_lieu_holidays),
         (DEC, 29, thai_election)]
      else if year = 2006 then
        [(APR, 19, thai_election),
         (JUN, 9, rama_ix_sixty_accession),
         (JUN, 12, rama_ix_sixty_accession),
         (JUN, 13, rama_ix_sixty_accession),
         (SEP, 20, thai_military_emergency_lockdown)]
      else if year = 2007 then
        [(DEC, 24, thai_election_in_lieu)]
      else if year = 2009 then
        [(JAN, 2, thai_bridge_public_holiday),
         (APR, 10, thai_political_emergency_lockdown),
         (APR, 16, thai_political_emergency_lockdown),
         (APR, 17, thai_political_emergency_lockdown),
         (JUL, 6, thai_bridge_public_holiday)]
      else if year = 2010 then
        [(MAY, 20, thai_bridge_public_holiday),
         (MAY, 21, thai_bridge_public_holiday),
         (AUG, 13, thai_bridge_public_holiday)]
      else if year = 2011 then
        [(MAY, 16, thai_bridge_public_holiday),
         (OCT, 27, thai_flood_2011_emergency_lockdown),
         (OCT, 28, thai_flood_2011_emergency_lockdown),
         (OCT, 31, thai_flood_2011_emergency_lockdown)]
      else if year = 2012 then
        [(APR, 9, thai_bridge_public_holiday)]
      else if year = 2013 then
        [(DEC, 30, thai_bridge_public_holiday)]
      else if year = 2014 then
        [(AUG, 11, thai_bridge_public_holiday)]
      else if year = 2015 then
        [(JAN, 2, thai_bridge_public_holiday),
         (MAY, 4, thai_bridge_public_holiday)]
      else if year = 2016 then
        [(MAY, 6, thai_bridge_public_holiday),
         (JUL, 18, thai_bridge_public_holiday),
         (OCT, 14, rama_ix_mourning)]
      else if year = 2017 then
        [(OCT, 26, rama_ix_cremation)]
      else if year = 2019 then
        [(MAY, 6, rama_x_coronation_celebrations)]
      else if year = 2020 then
        [(JUL, 27, songkran_festival_in_lieu_covid),
         (SEP, 4, songkran_festival_in_lieu_covid),
         (SEP, 7, songkran_festival_in_lieu_covid),
         (NOV, 19, thai_bridge_public_holiday),
         (NOV, 20, thai_bridge_public_holiday),
         (DEC, 11, thai_bridge_public_holiday)]
      else if year = 2021 then
        [(FEB, 12, thai_bridge_public_holiday),
         (APR, 12, thai_bridge_public_holiday),
         (SEP, 24, thai_bridge_public_holiday)]
      else if year = 2022 then
        [(JUL, 15, thai_bridge_public_holiday),
         (JUL, 29, thai_bridge_public_holiday),
         (OCT, 14, thai_bridge_public_holiday),
         (DEC, 30, thai_bridge_public_holiday)]
      else if year = 2023 then
        [(MAY, 5, thai_bridge_public_holiday)]
      else [])"

text \<open>The table \<^verbatim>\<open>raeknakhwan_dates\<close> of \<^verbatim>\<open>Thailand._populate\<close>.\<close>

definition raeknakhwan_dates :: "int \<Rightarrow> (int \<times> int) option" where
  "raeknakhwan_dates year =
     (if year = 1997 then Some (MAY, 13) else if year = 1998 then Some (MAY, 13)
      else if year = 2000 then Some (MAY, 15) else if year = 2001 then Some (MAY, 16)
      else if year = 2002 then Some (MAY, 9) else if year = 2003 then Some (MAY, 8)
      else if year = 2004 then Some (MAY, 7) else if year = 2005 then Some (MAY, 11)
      else if year = 2006 then Some (MAY, 11) else if year = 2007 then Some (MAY, 10)
      else if year = 2008 then Some (MAY, 9) else if year = 2009 then Some (MAY, 11)
      else if year = 2010 then Some (MAY, 10) else if year = 2011 then Some (MAY, 13)
      else if year = 2012 then Some (MAY, 9) else if year = 2013 then Some (MAY, 13)
      else if year = 2014 then Some (MAY, 9) else if year = 2015 then Some (MAY, 13)
      else if year = 2016 then Some (MAY, 9) else if year = 2017 then Some (MAY, 12)
      else if year = 2018 then Some (MAY, 14) else if year = 2019 then Some (MAY, 9)
      else if year = 2020 then Some (MAY, 11) else if year = 2021 then Some (MAY, 13)
      else if year = 2022 then Some (MAY, 17) else if year = 2023 then Some (MAY, 11)
      else None)"

text \<open>
  The local function \<^verbatim>\<open>_add_with_observed(dt, holiday_name)\<close> of
  \<^verbatim>\<open>Thailand._populate\<close>; it closes over \<^verbatim>\<open>year\<close> and \<^verbatim>\<open>self.observed\<close>.
\<close>

definition Thailand_add_with_observed :: "bool \<Rightarrow> int \<Rightarrow> date \<Rightarrow> string \<Rightarrow> entry list" where
  "Thailand_add_with_observed observed year dt holiday_name =
     [(dt, holiday_name)] @
     (if (1961 \<le> year \<and> year \<le> 1973) \<or> (1995 \<le> year \<and> year \<le> 1997) \<or> year \<ge> 2001 then
        if observed \<and> is_weekend dt then
          (let in_lieu = dt + (if is_saturday dt then 2 else 1)
           in [(in_lieu, holiday_name @ '' (in lieu)'')])
        else []
      else [])"

text \<open>
  The statements of \<^verbatim>\<open>Thailand._populate(year)\<close> that follow the call of the inherited
  \<^verbatim>\<open>_populate\<close>: the generic rules of the year, in source order.
\<close>

definition Thailand_generic :: "ThaiLuniSolar \<Rightarrow> bool \<Rightarrow> int \<Rightarrow> entry list" where
  "Thailand_generic thls observed year =
    (\<comment> \<open>New Year's Day\<close>
    Thailand_add_with_observed observed year (date year JAN 1) ''New Year's Day'' @
    \<comment> \<open>New Year's Eve (in lieu)\<close>
    (if observed \<and> ((1995 \<le> year \<and> year \<le> 1997) \<or> year \<ge> 2001) then
       if is_saturday (date (year - 1) DEC 31)
         then [(date year JAN 3, ''New Year's Eve (in lieu)'')]
       else if is_sunday (date (year - 1) DEC 31)
         then [(date year JAN 2, ''New Year's Eve (in lieu)'')]
       else []
     else []) @
    \<comment> \<open>Chakri Memorial Day\<close>
    Thailand_add_with_observed observed year (date year APR 6) ''Chakri Memorial Day'' @
    \<comment> \<open>Songkran Festival\<close>
    (if 1948 \<le> year \<and> year \<le> 1953 then
       [(date year APR 13, ''Songkran Festival''),
        (date year APR 14, ''Songkran Festival''),
        (date year APR 15, ''Songkran Festival'')]
     else if 1957 \<le> year \<and> year \<le> 1988 then
       Thailand_add_with_observed observed year (date year APR 13) ''Songkran Festival''
     else if 1989 \<le> year \<and> year \<le> 1997 then
       [(date year APR 12, ''Songkran Festival''),
        (date year APR 13, ''Songkran Festival''),
        (date year APR 14, ''Songkran Festival'')]
     else if year \<ge> 1998 \<and> year \<noteq> 2020 then
       [(date year APR 13, ''Songkran Festival''),
        (date year APR 14, ''Songkran Festival''),
        (date year APR 15, ''Songkran Festival'')]
     else []) @
    \<comment> \<open>Songkran Festival (in lieu)\<close>
    (if observed \<and> ((1995 \<le> year \<and> year \<le> 1997) \<or> year \<ge> 2001) then
       (let dt = (if year \<ge> 2001 then date year APR 15 else date year APR 14) in
        if is_saturday dt then [(dt + 2, ''Songkran Festival (in lieu)'')]
        else if is_sunday dt then [(dt + 1, ''Songkran Festival (in lieu)'')]
        else if is_monday dt then [(dt + 1, ''Songkran Festival (in lieu)'')]
        else [])
     else []) @
    \<comment> \<open>National Labour day\<close>
    (if year \<ge> 1974
       then Thailand_add_with_observed observed year (date year MAY 1) ''National Labour Day''
     else []) @
    \<comment> \<open>National Day (24 June)\<close>
    (if year \<le> 1959
       then Thailand_add_with_observed observed year (date year JUN 24) ''National Day''
     else []) @
    \<comment> \<open>Coronation Day\<close>
    (if 1958 \<le> year \<and> year \<le> 2016
       then Thailand_add_with_observed observed year (date year MAY 5) ''Coronation Day''
     else if year \<ge> 2020
       then Thailand_add_with_observed observed year (date year MAY 4) ''Coronation Day''
     else []) @
    \<comment> \<open>HM Queen Suthida's Birthday\<close>
    (if year \<ge> 2019
       then Thailand_add_with_observed observed year (date year JUN 3)
              ''HM Queen Suthida's Birthday''
     else []) @
    \<comment> \<open>HM King Maha Vajiralongkorn's Birthday\<close>
    (if year \<ge> 2017
       then Thailand_add_with_observed observed year (date year JUL 28)
              ''HM King Maha Vajiralongkorn's Birthday''
     else []) @
    \<comment> \<open>HM Queen Sirikit the Queen Mother's Birthday\<close>
    (if 1976 \<le> year \<and> year \<le> 2016
       then Thailand_add_with_observed observed year (date year AUG 12)
              ''HM Queen Sirikit's Birthday''
     else if year \<ge> 2017
       then Thailand_add_with_observed observed year (date year AUG 12)
              ''HM Queen Sirikit The Queen Mother's Birthday''
     else []) @
    \<comment> \<open>National Mother's Day\<close>
    (if 1950 \<le> year \<and> year \<le> 1957
       then Thailand_add_with_observed observed year (date year APR 15)
              ''National Mother's Day''
     else if year \<ge> 1976
       then Thailand_add_with_observed observed year (date year AUG 12)
              ''National Mother's Day''
     else []) @
    \<comment> \<open>Anniversary for the Death of King Bhumibol Adulyadej\<close>
    (if year \<ge> 2017
       then Thailand_add_with_observed observed year (date year OCT 13)
              ''HM King Bhumibol Adulyadej Memorial Day''
     else []) @
    \<comment> \<open>Chulalongkorn Memorial Day\<close>
    Thailand_add_with_observed observed year (date year OCT 23)
      ''Chulalongkorn Memorial Day'' @
    \<comment> \<open>HM King Bhumibol Adulyadej's Birthday Anniversary\<close>
    (if year \<ge> 1960
       then Thailand_add_with_observed observed year (date year DEC 5)
              ''HM King Bhumibol Adulyadej's Birthday''
     else []) @
    \<comment> \<open>National Father's Day\<close>
    (if year \<ge> 1980
       then Thailand_add_with_observed observed year (date year DEC 5)
              ''National Father's Day''
     else []) @
    \<comment> \<open>Constitution Day\<close>
    Thailand_add_with_observed observed year (date year DEC 10) ''Constitution Day'' @
    \<comment> \<open>New Year's Eve\<close>
    [(date year DEC 31, ''New Year's Eve'')] @
    \<comment> \<open>Makha Bucha\<close>
    (case makha_bucha_date thls year of
       Some makha \<Rightarrow> Thailand_add_with_observed observed year makha ''Makha Bucha''
     | None \<Rightarrow> []) @
    \<comment> \<open>Visakha Bucha\<close>
    (case visakha_bucha_date thls year of
       Some visakha \<Rightarrow> Thailand_add_with_observed observed year visakha ''Visakha Bucha''
     | None \<Rightarrow> []) @
    \<comment> \<open>Asarnha Bucha\<close>
    (case asarnha_bucha_date thls year of
       Some asarnha \<Rightarrow> [(asarnha, ''Asarnha Bucha'')]
     | None \<Rightarrow> []) @
    \<comment> \<open>Buddhist Lent Day\<close>
    (case khao_phansa_date thls year of
       Some khao_phansa \<Rightarrow> [(khao_phansa, ''Buddhist Lent Day'')]
     | None \<Rightarrow> []) @
    \<comment> \<open>Asarnha Bucha/Buddhist Lent Day (in lieu)\<close>
    (case asarnha_bucha_date thls year of
       Some asarnha \<Rightarrow>
         if observed \<and> ((1961 \<le> year \<and> year \<le> 1973) \<or> (1995 \<le> year \<and> year \<le> 1997)
              \<or> year \<ge> 2001) then
           if is_friday asarnha then [(asarnha + 3, ''Buddhist Lent Day (in lieu)'')]
           else if is_weekend asarnha then [(asarnha + 2, ''Asarnha Bucha (in lieu)'')]
           else []
         else []
     | None \<Rightarrow> []) @
    \<comment> \<open>Royal Ploughing Ceremony\<close>
    (case raeknakhwan_dates year of
       Some (month, mday) \<Rightarrow>
         Thailand_add_with_observed observed year (date year month mday)
           ''Royal Ploughing Ceremony''
     | None \<Rightarrow>
         if 1957 \<le> year \<and> year \<le> 1996
           then Thailand_add_with_observed observed year (date year MAY 13)
                  ''Royal Ploughing Ceremony''
         else []))"

text \<open>
  \<^verbatim>\<open>Thailand._populate(year)\<close>. The early return for \<^verbatim>\<open>year <= 1940\<close> comes before the
  inherited \<^verbatim>\<open>_populate\<close>, which assigns the special table of the year, and before the
  first date is built; the generic rules follow.
\<close>

definition Thailand_populate :: "ThaiLuniSolar \<Rightarrow> bool \<Rightarrow> int \<Rightarrow> error + entry list" where
  "Thailand_populate thls observed year =
     (if year \<le> 1940 then Inr []
      else if \<not> year_in_range year then Inl ValueError
      else Inr (HolidayBase_populate Thailand_special_holidays year @
                Thailand_generic thls observed year))"

definition Thailand_holidays :: "ThaiLuniSolar \<Rightarrow> bool \<Rightarrow> int \<Rightarrow> error + holiday_map" where
  "Thailand_holidays thls observed year =
     map_sum id (\<lambda>es. assign es Map.empty) (Thailand_populate thls observed year)"

section \<open>Assignments and lookups\<close>

lemma assign_append: "assign (xs @ ys) hm = assign ys (assign xs hm)"
  by (simp add: assign_def)

lemma assign_Nil: "assign [] hm = hm"
  by (simp add: assign_def)

lemma assign_Cons: "assign (e # es) hm = assign es (hm(fst e \<mapsto> snd e))"
  by (simp add: assign_def setitem_def)

lemma assign_avoid: "list_all (\<lambda>e. fst e \<noteq> d) es \<Longrightarrow> assign es hm d = hm d"
  by (induction es arbitrary: hm) (auto simp: assign_Nil assign_Cons)

lemma assign_member: "assign es hm d = Some l \<Longrightarrow> (d, l) \<in> set es \<or> hm d = Some l"
proof (induction es arbitrary: hm)
  case Nil
  then show ?case by (simp add: assign_Nil)
next
  case (Cons e es)
  from Cons.prems have "assign es (hm(fst e \<mapsto> snd e)) d = Some l" by (simp add: assign_Cons)
  from Cons.IH[OF this] show ?case by (cases e) (auto split: if_splits)
qed

lemma assign_written:
  "assign xs Map.empty d = Some l \<Longrightarrow> list_all (\<lambda>e. fst e \<noteq> d) ys
     \<Longrightarrow> assign (xs @ ys) Map.empty d = Some l"
  by (simp add: assign_append assign_avoid)

lemma assign_later: "assign ys Map.empty d = Some l \<Longrightarrow> assign (xs @ ys) hm d = Some l"
proof (induction ys arbitrary: xs hm rule: rev_induct)
  case Nil
  then show ?case by (simp add: assign_Nil)
next
  case (snoc e ys)
  show ?case
  proof (cases "fst e = d")
    case True
    with snoc.prems show ?thesis
      by (simp add: assign_append assign_Cons assign_Nil)
  next
    case False
    with snoc.prems have "assign ys Map.empty d = Some l"
      by (simp add: assign_append assign_Cons assign_Nil)
    then have "assign (xs @ ys) hm d = Some l" by (rule snoc.IH)
    with False show ?thesis
      by (simp add: assign_append assign_Cons assign_Nil)
  qed
qed

lemma labelOf_absent:
  assumes "list_all (\<lambda>e. snd e \<noteq> l) es"
  shows "labelOf (map_sum id (\<lambda>es. assign es Map.empty) (Inr es)) d \<noteq> Inr (Some l)"
proof
  assume "labelOf (map_sum id (\<lambda>es. assign es Map.empty) (Inr es)) d = Inr (Some l)"
  then have "assign es Map.empty d = Some l" by (simp add: labelOf_def)
  then have "(d, l) \<in> set es" using assign_member by fastforce
  with assms show False by (auto simp: list_all_iff)
qed

lemma list_all_If:
  "list_all P (if c then xs else ys) \<longleftrightarrow> (c \<longrightarrow> list_all P xs) \<and> (\<not> c \<longrightarrow> list_all P ys)"
  by simp

lemma absent_label:
  assumes "case r of Inl e \<Rightarrow> True | Inr es \<Rightarrow> list_all (\<lambda>e. snd e \<noteq> l) es"
  shows "labelOf (map_sum id (\<lambda>es. assign es Map.empty) r) d \<noteq> Inr (Some l)"
proof (cases r)
  case (Inl e)
  then show ?thesis by (simp add: labelOf_def)
next
  case (Inr es)
  with assms have "list_all (\<lambda>e. snd e \<noteq> l) es" by simp
  from labelOf_absent[OF this] Inr show ?thesis by simp
qed

section \<open>Calendar facts\<close>

text \<open>
  Easter falls on a Sunday between March 22 and April 25, for every year.
\<close>

lemma div_pred:
  assumes "0 < (k::int)"
  shows "(y - 1) div k = y div k - (if y mod k = 0 then 1 else 0)"
proof (cases "y mod k = 0")
  case True
  have "y = k * (y div k) + y mod k" by simp
  with True have "y - 1 = k * (y div k - 1) + (k - 1)" by (simp add: algebra_simps)
  then have "(y - 1) div k = y div k - 1"
    using assms by (intro int_div_pos_eq[where r = "k - 1"]) auto
  with True show ?thesis by simp
next
  case False
  have "0 \<le> y mod k" "y mod k < k" using assms by simp_all
  with False have r: "0 \<le> y mod k - 1" "y mod k - 1 < k" by linarith+
  have "y - 1 = k * (y div k) + (y mod k - 1)" by simp
  then have "(y - 1) div k = y div k"
    using r by (intro int_div_pos_eq[where r = "y mod k - 1"]) auto
  with False show ?thesis by simp
qed

lemma leap_div:
  "(y - 1) div 4 - (y - 1) div 100 + (y - 1) div 400 + (if is_leap y then 1 else 0)
     = y div 4 - y div 100 + y div (400::int)"
proof -
  have d: "y mod 400 = 0 \<Longrightarrow> y mod 100 = 0"
    using mod_mod_cancel[of 100 400 y] by simp
  have e: "y mod 100 = 0 \<Longrightarrow> y mod 4 = 0"
    using mod_mod_cancel[of 4 100 y] by simp
  show ?thesis
    unfolding div_pred[of 4 y, simplified] div_pred[of 100 y, simplified]
      div_pred[of 400 y, simplified] is_leap_def
    using d e by auto
qed

lemma date_mar: "date y 3 d = y * 365 + (y div 4 - y div 100 + y div 400) - 306 + d"
proof -
  have "date y 3 d = (y - 1) * 365 + ((y - 1) div 4 - (y - 1) div 100 + (y - 1) div 400 + (if is_leap y then 1 else 0)) + 59 + d"
    by (simp add: date_def days_before_year_def days_before_month_def DAYS_BEFORE_MONTH_def Let_def)
  also have "\<dots> = (y - 1) * 365 + (y div 4 - y div 100 + y div 400) + 59 + d"
    using leap_div[of y] by simp
  finally show ?thesis by (simp add: algebra_simps)
qed

lemma date_apr: "date y 4 d = date y 3 (d + 31)"
  by (simp add: date_def days_before_year_def days_before_month_def DAYS_BEFORE_MONTH_def)

lemma easter_md:
  assumes "-6 \<le> p" "p \<le> (28::int)"
  shows "date y (3 + (p + 26) div 30) (1 + (p + 27 + (p + 6) div 40) mod 31) = date y 3 (p + 28)"
proof (cases "p \<le> 3")
  case True
  with assms have "(p + 26) div 30 = 0" "(p + 6) div 40 = 0" "(p + 27) mod 31 = p + 27" by auto
  then show ?thesis by (simp add: add.commute)
next
  case False
  with assms have "(p + 26) div 30 = 1" "(p + 6) div 40 = 0" "(p + 27) mod 31 = p - 4" by presburger+
  then show ?thesis by (simp add: date_apr add.commute)
qed

lemma easter_i_range:
  assumes "0 \<le> h" "h \<le> (29::int)" "0 \<le> g" "g \<le> (18::int)"
  shows "0 \<le> h - (h div 28) * (1 - (h div 28) * (29 div (h + 1)) * ((21 - g) div 11))
       \<and> h - (h div 28) * (1 - (h div 28) * (29 div (h + 1)) * ((21 - g) div 11)) \<le> 28"
proof -
  consider "h < 28" | "h = 28" | "h = 29" using assms by linarith
  then show ?thesis
  proof cases
    case 1
    with assms have "h div 28 = 0" by simp
    with 1 assms show ?thesis by simp
  next
    case 2
    have "(21 - g) div 11 = 0 \<or> (21 - g) div 11 = 1" using assms by presburger
    with 2 show ?thesis by auto
  next
    case 3
    then show ?thesis by simp
  qed
qed

lemma easter_shape:
  "\<exists>k. 0 \<le> k \<and> k \<le> 34 \<and> easter y = date y 3 22 + k \<and> weekday (easter y) = 6"
proof -
  define g where "g = y mod 19"
  define c where "c = y div 100"
  define h where "h = (c - c div 4 - (8 * c + 13) div 25 + 19 * g + 15) mod 30"
  define i where "i = h - (h div 28) * (1 - (h div 28) * (29 div (h + 1)) * ((21 - g) div 11))"
  define L where "L = y div 4 - y div 100 + y div 400"
  define A where "A = y + L + i + 2"
  define j where "j = A mod 7"
  define p where "p = i - j"
  have c4: "c div 4 = y div 400" unfolding c_def by (simp add: zdiv_zmult2_eq[symmetric])
  have jj: "j = (y + y div 4 + i + 2 - c + c div 4) mod 7"
    unfolding j_def A_def L_def c4 unfolding c_def by (simp add: algebra_simps)
  have e: "easter y = date y (3 + (p + 26) div 30) (1 + (p + 27 + (p + 6) div 40) mod 31)"
    unfolding easter_def Let_def p_def jj i_def h_def c_def g_def ..
  have "0 \<le> g" "g \<le> 18" "0 \<le> h" "h \<le> 29" unfolding g_def h_def by simp_all
  then have ir: "0 \<le> i" "i \<le> 28" using easter_i_range[of h g] unfolding i_def by simp_all
  have jr: "0 \<le> j" "j \<le> 6" unfolding j_def by simp_all
  have pr: "-6 \<le> p" "p \<le> 28" using ir jr unfolding p_def by simp_all
  have e2: "easter y = date y 3 22 + (p + 6)" unfolding e easter_md[OF pr] by (simp add: date_mar)
  have "easter y = y * 365 + L - 306 + 22 + (i - j + 6)"
    unfolding e2 date_mar L_def p_def by simp
  moreover have "j = A - 7 * (A div 7)" unfolding j_def by (simp add: minus_mult_div_eq_mod)
  ultimately have "easter y + 6 = 7 * (52 * y + A div 7 - 40) + 6"
    unfolding A_def by (simp add: algebra_simps)
  then have "weekday (easter y) = 6" unfolding weekday_def by (simp only: mod_mult_self4) simp
  with e2 pr show ?thesis by (intro exI[of _ "p + 6"]) simp
qed


section \<open>US government securities market: properties\<close>

text \<open>
  C3. With \<open>observed = true\<close>, the map of 2023 has ``New Year's Day (Observed)'' on
  January 2 (January 1, 2023 is a Sunday) and no entry labelled ``Good Friday'' (Good
  Friday 2023 is the third Friday after the March reference week).
\<close>

theorem USGS_2023:
  "weekday (date 2023 JAN 1) = SU \<and>
   labelOf (USGS_holidays True 2023) (date 2023 JAN 2) = Inr (Some ''New Year's Day (Observed)'') \<and>
   easter 2023 + (-2) = rd_weekday FR 1 (date 2023 MAR 12 + 21) \<and>
   (\<forall>d. labelOf (USGS_holidays True 2023) d \<noteq> Inr (Some ''Good Friday''))"
proof (intro conjI allI)
  show "weekday (date 2023 JAN 1) = SU" by code_simp
  show "labelOf (USGS_holidays True 2023) (date 2023 JAN 2) = Inr (Some ''New Year's Day (Observed)'')"
    by code_simp
  show "easter 2023 + (-2) = rd_weekday FR 1 (date 2023 MAR 12 + 21)" by code_simp
next
  fix d
  have "case USGS_populate True 2023 of Inl e \<Rightarrow> False
        | Inr es \<Rightarrow> list_all (\<lambda>e. snd e \<noteq> ''Good Friday'') es"
    by code_simp
  then obtain es where es: "USGS_populate True 2023 = Inr es"
      "list_all (\<lambda>e. snd e \<noteq> ''Good Friday'') es"
    by (cases "USGS_populate True 2023") auto
  show "labelOf (USGS_holidays True 2023) d \<noteq> Inr (Some ''Good Friday'')"
    unfolding USGS_holidays_def es(1) by (rule labelOf_absent[OF es(2)])
qed

section \<open>Hungary: properties\<close>

lemmas date_sym = date_def days_before_month_def DAYS_BEFORE_MONTH_def

lemmas hu_labels = ujev_def elotti_pihenonap_def utani_pihenonap_def nemzeti_unnep_def
  tanacskoztarsasag_def felszabadulas_def oktoberi_forradalom_def nagypentek_def husvet_def
  husvet_hetfo_def punkosd_def punkosdhetfo_def munka_unnepe_def kenyer_unnepe_def
  allamalapitas_def mindenszentek_def szenteste_def karacsony_def karacsony_masnapja_def
  szilveszter_def

lemma Hungary_add_all:
  "list_all P (Hungary_add_with_observed_day_off obs y m md desc since b a) \<longleftrightarrow>
     P (date y m md, desc) \<and>
     (obs \<and> since \<le> y \<and> weekday (date y m md) = TU \<and> b \<and> \<not> (m = JAN \<and> md = 1)
        \<longrightarrow> P (date y m md - 1, desc @ elotti_pihenonap)) \<and>
     (obs \<and> since \<le> y \<and> \<not> (weekday (date y m md) = TU \<and> b \<and> \<not> (m = JAN \<and> md = 1))
        \<and> weekday (date y m md) = TH \<and> a
        \<longrightarrow> P (date y m md + 1, desc @ utani_pihenonap))"
  by (auto simp: Hungary_add_with_observed_day_off_def Let_def)

lemma rd_weekday_FR_before_sunday: "weekday d = SU \<Longrightarrow> rd_weekday FR (-1) d = d - 2"
  by (simp add: rd_weekday_def)

lemma Hungary_no_good_friday:
  assumes "year < 2017"
  shows "case Hungary_populate observed year of Inl e \<Rightarrow> True
         | Inr es \<Rightarrow> list_all (\<lambda>e. snd e \<noteq> nagypentek) es"
  using assms
  by (simp add: Hungary_populate_def Let_def list_all_If Hungary_add_all hu_labels)

lemma Hungary_good_friday_present:
  assumes "2017 \<le> year" "year \<le> 9999"
  shows "labelOf (Hungary_holidays observed year) (easter year - 2) = Inr (Some nagypentek)"
proof -
  obtain k where k: "0 \<le> k" "k \<le> 34" "easter year = date year 3 22 + k"
      "weekday (easter year) = 6"
    using easter_shape[of year] by blast
  have r: "year_in_range year" using assms by (simp add: year_in_range_def)
  have "assign (projr (Hungary_populate observed year)) Map.empty (easter year - 2) = Some nagypentek"
    unfolding Hungary_populate_def Let_def using r
    apply (simp only: if_False if_True not_True_eq_False simp_thms sum.sel)
    apply (rule assign_later)
    apply (rule assign_later)
    apply (rule assign_later)
    apply (rule assign_later)
    apply (rule assign_written)
    subgoal using assms k by (simp add: rd_weekday_FR_before_sunday assign_Cons assign_Nil)
    subgoal using assms k
      by (simp add: list_all_If Hungary_add_all date_sym is_leap_def)
    done
  then show ?thesis
    using r by (simp add: Hungary_holidays_def Hungary_populate_def labelOf_def Let_def)
qed


text \<open>
  C1, as amended. For every year before 2017 the map has no entry labelled
  \<open>nagypentek\<close> (Good Friday); for every year from 2017 to 9999, the last year of the
  date type, the Friday two days before Easter Sunday carries that label.
\<close>

theorem Hungary_good_friday:
  "(year < 2017 \<longrightarrow>
      (\<forall>d. labelOf (Hungary_holidays observed year) d \<noteq> Inr (Some nagypentek))) \<and>
   (2017 \<le> year \<and> year \<le> 9999 \<longrightarrow>
      labelOf (Hungary_holidays observed year) (easter year - 2) = Inr (Some nagypentek))"
proof (intro conjI impI allI)
  fix d
  assume "year < 2017"
  then show "labelOf (Hungary_holidays observed year) d \<noteq> Inr (Some nagypentek)"
    unfolding Hungary_holidays_def by (intro absent_label Hungary_no_good_friday)
next
  assume "2017 \<le> year \<and> year \<le> 9999"
  then show "labelOf (Hungary_holidays observed year) (easter year - 2) = Inr (Some nagypentek)"
    by (intro Hungary_good_friday_present) simp_all
qed

theorem Hungary_good_friday_witness:
  "(\<forall>d. labelOf (Hungary_holidays True 2016) d \<noteq> Inr (Some nagypentek)) \<and>
   labelOf (Hungary_holidays True 2017) (easter 2017 - 2) = Inr (Some nagypentek)"
  using Hungary_good_friday[of 2016 True] Hungary_good_friday[of 2017 True] by simp

text \<open>
  The claim as stated places the entry one day before Easter: in 2017 that day, Saturday
  April 15, has no entry.
\<close>

theorem Hungary_good_friday_counterexample:
  "labelOf (Hungary_holidays True 2017) (easter 2017 - 1) = Inr None"
  by code_simp

text \<open>
  C6. The map of 1955 has no entry labelled \<open>husvet_hetfo\<close> (Easter Monday) and none
  labelled \<open>karacsony_masnapja\<close> (Second Christmas); the map of 1956 has
  \<open>husvet_hetfo\<close> on the day after Easter.
\<close>

theorem Hungary_1955_1956:
  "(\<forall>d. labelOf (Hungary_holidays observed 1955) d \<noteq> Inr (Some husvet_hetfo)) \<and>
   (\<forall>d. labelOf (Hungary_holidays observed 1955) d \<noteq> Inr (Some karacsony_masnapja)) \<and>
   labelOf (Hungary_holidays observed 1956) (easter 1956 + 1) = Inr (Some husvet_hetfo)"
proof (intro conjI allI)
  fix d
  have "case Hungary_populate True 1955 of Inl e \<Rightarrow> True
        | Inr es \<Rightarrow> list_all (\<lambda>e. snd e \<noteq> husvet_hetfo) es"
    by code_simp
  moreover have "case Hungary_populate False 1955 of Inl e \<Rightarrow> True
        | Inr es \<Rightarrow> list_all (\<lambda>e. snd e \<noteq> husvet_hetfo) es"
    by code_simp
  ultimately have "case Hungary_populate observed 1955 of Inl e \<Rightarrow> True
        | Inr es \<Rightarrow> list_all (\<lambda>e. snd e \<noteq> husvet_hetfo) es"
    by (cases observed) simp_all
  then show "labelOf (Hungary_holidays observed 1955) d \<noteq> Inr (Some husvet_hetfo)"
    unfolding Hungary_holidays_def by (rule absent_label)
next
  fix d
  have "case Hungary_populate True 1955 of Inl e \<Rightarrow> True
        | Inr es \<Rightarrow> list_all (\<lambda>e. snd e \<noteq> karacsony_masnapja) es"
    by code_simp
  moreover have "case Hungary_populate False 1955 of Inl e \<Rightarrow> True
        | Inr es \<Rightarrow> list_all (\<lambda>e. snd e \<noteq> karacsony_masnapja) es"
    by code_simp
  ultimately have "case Hungary_populate observed 1955 of Inl e \<Rightarrow> True
        | Inr es \<Rightarrow> list_all (\<lambda>e. snd e \<noteq> karacsony_masnapja) es"
    by (cases observed) simp_all
  then show "labelOf (Hungary_holidays observed 1955) d \<noteq> Inr (Some karacsony_masnapja)"
    unfolding Hungary_holidays_def by (rule absent_label)
next
  have "labelOf (Hungary_holidays True 1956) (easter 1956 + 1) = Inr (Some husvet_hetfo)"
    by code_simp
  moreover have "labelOf (Hungary_holidays False 1956) (easter 1956 + 1) = Inr (Some husvet_hetfo)"
    by code_simp
  ultimately show "labelOf (Hungary_holidays observed 1956) (easter 1956 + 1) = Inr (Some husvet_hetfo)"
    by (cases observed) simp_all
qed

section \<open>US government securities market: observed dates\<close>

lemma rd_weekday_after:
  assumes "0 < n"
  shows "d + 7 * (n - 1) \<le> rd_weekday wd n d \<and> rd_weekday wd n d \<le> d + 7 * (n - 1) + 6"
proof -
  have "0 \<le> (7 - weekday d + wd) mod 7" "(7 - weekday d + wd) mod 7 \<le> 6" by simp_all
  with assms show ?thesis by (simp add: rd_weekday_def Let_def)
qed

lemma rd_weekday_before:
  assumes "n < 0"
  shows "d - 7 * (- n - 1) - 6 \<le> rd_weekday wd n d \<and> rd_weekday wd n d \<le> d - 7 * (- n - 1)"
proof -
  have "0 \<le> (weekday d - wd) mod 7" "(weekday d - wd) mod 7 \<le> 6" by simp_all
  with assms show ?thesis by (simp add: rd_weekday_def Let_def)
qed

lemma USGS_get_observed_eq:
  "USGS_get_observed d =
     (if weekday d = SA then d - 1 else if weekday d = SU then d + 1 else d)"
proof -
  have a: "d mod 7 = 6 \<longleftrightarrow> weekday d = 5" unfolding weekday_def by presburger
  have b: "d mod 7 = 0 \<longleftrightarrow> weekday d = 6" unfolding weekday_def by presburger
  show ?thesis
    by (auto simp: USGS_get_observed_def isoweekday_def Let_def rd_weekday_def a b)
qed

lemma USGS_set_all:
  "list_all P (USGS_set_observed_date d name) \<longleftrightarrow>
     (weekday d = SA \<longrightarrow> P (d - 1, name @ '' (Observed)'')) \<and>
     (weekday d = SU \<longrightarrow> P (d + 1, name @ '' (Observed)'')) \<and>
     (weekday d \<noteq> SA \<and> weekday d \<noteq> SU \<longrightarrow> P (d, name))"
  by (auto simp: USGS_set_observed_date_def USGS_get_observed_eq Let_def)

lemma date_ofs:
  "date y m d = days_before_year y + DAYS_BEFORE_MONTH m
     + (if 2 < m then of_bool (is_leap y) else 0) + d"
  by (simp add: date_def days_before_month_def)

lemma leap_bounds: "0 \<le> (of_bool (is_leap y) :: int) \<and> (of_bool (is_leap y) :: int) \<le> 1"
  by simp

lemmas date_lin = date_ofs DAYS_BEFORE_MONTH_def




lemma avoid_below:
  "list_all (\<lambda>e. (lo::int) \<le> fst e) es \<Longrightarrow> d < lo \<Longrightarrow> list_all (\<lambda>e. fst e \<noteq> d) es"
  by (induction es) auto




lemma USGS_washington_written:
  "assign (USGS_set_observed_date w name) Map.empty
     (if is_saturday w then w - 1 else if is_sunday w then w + 1 else w)
   = Some (if is_weekend w then name @ '' (Observed)'' else name)"
  by (simp add: USGS_set_observed_date_def USGS_get_observed_eq Let_def is_saturday_def
      is_sunday_def is_weekend_def assign_Cons assign_Nil)

text \<open>
  C5. In every year before 1971 (of the date type, from year 1), Washington's Birthday is
  entered at February 22, moved to the preceding Friday when that is a Saturday and to the
  following Monday when it is a Sunday, with the suffix `` (Observed)'' when moved. In
  1970 February 22 is a Sunday and the entry is on February 23.
\<close>

theorem USGS_washington_before_1971:
  assumes "year_in_range year" "year < 1971"
  shows "labelOf (USGS_holidays observed year)
           (if is_saturday (date year FEB 22) then date year FEB 22 - 1
            else if is_sunday (date year FEB 22) then date year FEB 22 + 1
            else date year FEB 22)
         = Inr (Some (if is_weekend (date year FEB 22) then ''Washington's Birthday (Observed)''
                      else ''Washington's Birthday''))"
proof -
  obtain k where k: "0 \<le> k" "k \<le> 34" "easter year = date year 3 22 + k"
    using easter_shape[of year] by blast
  note b = rd_weekday_before[of "-1" "date year MAY 31" MO] rd_weekday_after[of 1 "date year SEP 1" MO]
    rd_weekday_after[of 4 "date year NOV 1" TH]
  let ?key = "if is_saturday (date year FEB 22) then date year FEB 22 - 1
            else if is_sunday (date year FEB 22) then date year FEB 22 + 1
            else date year FEB 22"
  have kr: "date year FEB 22 - 1 \<le> ?key" "?key \<le> date year FEB 22 + 1" by simp_all
  have "assign (projr (USGS_populate observed year)) Map.empty ?key
        = Some (if is_weekend (date year FEB 22) then ''Washington's Birthday'' @ '' (Observed)''
                      else ''Washington's Birthday'')"
    unfolding USGS_populate_def Let_def using assms
    apply (simp only: if_False if_True not_True_eq_False simp_thms sum.sel)
    apply (rule assign_later)
    apply (rule assign_later)
    apply (rule assign_written)
    subgoal by (rule USGS_washington_written)
    subgoal
      apply (rule avoid_below[where lo = "date year MAR 1"])
      subgoal using assms k b leap_bounds[of year]
        by (auto simp add: list_all_If USGS_set_all date_lin)
      subgoal using kr by (simp add: date_lin)
      done
    done
  then show ?thesis
    using assms by (simp add: USGS_holidays_def USGS_populate_def labelOf_def Let_def)
qed

theorem USGS_washington_before_1971_witness:
  "weekday (date 1970 FEB 22) = SU \<and>
   labelOf (USGS_holidays True 1970) (date 1970 FEB 23) = Inr (Some ''Washington's Birthday (Observed)'')"
proof -
  have a: "year_in_range 1970" "is_sunday (date 1970 FEB 22)" "\<not> is_saturday (date 1970 FEB 22)"
    "is_weekend (date 1970 FEB 22)" "date 1970 FEB 22 + 1 = date 1970 FEB 23"
    "weekday (date 1970 FEB 22) = SU"
    by code_simp+
  show ?thesis
    using USGS_washington_before_1971[OF a(1), of True] a by simp
qed


section \<open>Thailand: properties\<close>

lemma list_all_case_option:
  "list_all P (case x of None \<Rightarrow> a | Some v \<Rightarrow> f v) \<longleftrightarrow>
     (x = None \<longrightarrow> list_all P a) \<and> (\<forall>v. x = Some v \<longrightarrow> list_all P (f v))"
  by (cases x) simp_all

lemma Thailand_add_all:
  "list_all P (Thailand_add_with_observed obs y dt name) \<longleftrightarrow>
     P (dt, name) \<and>
     (((1961 \<le> y \<and> y \<le> 1973) \<or> (1995 \<le> y \<and> y \<le> 1997) \<or> 2001 \<le> y) \<and> obs \<and> is_weekend dt
        \<longrightarrow> P (dt + (if is_saturday dt then 2 else 1), name @ '' (in lieu)''))"
  by (auto simp: Thailand_add_with_observed_def Let_def)

text \<open>
  C7. With \<open>observed = true\<close>, the generic observed path assigns the raw date and, exactly
  when the raw date is on a weekend and the year lies in 1961--1973, 1995--1997 or from 2001
  on, also ``<name> (in lieu)'' two days after a Saturday or one day after a Sunday, which
  is a Monday. In 1974--1994 and 1998--2000 it assigns the raw date only.
\<close>

theorem Thailand_add_with_observed_in_lieu:
  "Thailand_add_with_observed True year dt name =
     (if is_weekend dt \<and>
         ((1961 \<le> year \<and> year \<le> 1973) \<or> (1995 \<le> year \<and> year \<le> 1997) \<or> 2001 \<le> year)
      then [(dt, name), (dt + (if is_saturday dt then 2 else 1), name @ '' (in lieu)'')]
      else [(dt, name)]) \<and>
   (is_weekend dt \<longrightarrow> is_monday (dt + (if is_saturday dt then 2 else 1))) \<and>
   ((1974 \<le> year \<and> year \<le> 1994) \<or> (1998 \<le> year \<and> year \<le> 2000) \<longrightarrow>
      Thailand_add_with_observed True year dt name = [(dt, name)])"
proof (intro conjI impI)
  show "Thailand_add_with_observed True year dt name =
     (if is_weekend dt \<and>
         ((1961 \<le> year \<and> year \<le> 1973) \<or> (1995 \<le> year \<and> year \<le> 1997) \<or> 2001 \<le> year)
      then [(dt, name), (dt + (if is_saturday dt then 2 else 1), name @ '' (in lieu)'')]
      else [(dt, name)])"
    by (simp add: Thailand_add_with_observed_def Let_def)
next
  assume "is_weekend dt"
  then show "is_monday (dt + (if is_saturday dt then 2 else 1))"
    unfolding is_weekend_def is_monday_def is_saturday_def weekday_def by presburger
next
  assume "(1974 \<le> year \<and> year \<le> 1994) \<or> (1998 \<le> year \<and> year \<le> 2000)"
  then show "Thailand_add_with_observed True year dt name = [(dt, name)]"
    by (auto simp add: Thailand_add_with_observed_def Let_def)
qed

theorem Thailand_add_with_observed_in_lieu_witness:
  "Thailand_add_with_observed True 2011 (date 2011 JAN 1) ''New Year's Day'' =
     [(date 2011 JAN 1, ''New Year's Day''), (date 2011 JAN 3, ''New Year's Day (in lieu)'')] \<and>
   is_monday (date 2011 JAN 3) \<and>
   Thailand_add_with_observed True 1999 (date 1999 MAY 1) ''National Labour Day'' =
     [(date 1999 MAY 1, ''National Labour Day'')]"
proof -
  have a: "is_weekend (date 2011 JAN 1)" "is_saturday (date 2011 JAN 1)"
    "date 2011 JAN 1 + 2 = date 2011 JAN 3" "is_weekend (date 1999 MAY 1)"
    by code_simp+
  show ?thesis
    using Thailand_add_with_observed_in_lieu[of 2011 "date 2011 JAN 1" "''New Year's Day''"]
      Thailand_add_with_observed_in_lieu[of 1999 "date 1999 MAY 1" "''National Labour Day''"] a
    by simp
qed

lemmas th_labels = thai_special_in_lieu_holidays_def thai_election_def
  thai_election_in_lieu_def thai_bridge_public_holiday_def rama_ix_golden_jubilee_def
  rama_ix_sixty_accession_def thai_military_emergency_lockdown_def
  thai_political_emergency_lockdown_def thai_flood_2011_emergency_lockdown_def
  rama_ix_mourning_def rama_ix_cremation_def rama_x_coronation_celebrations_def
  songkran_festival_in_lieu_covid_def

lemma Thailand_populate_Inr:
  "1940 < year \<Longrightarrow> year \<le> 9999 \<Longrightarrow>
     Thailand_populate thls observed year = Inr (projr (Thailand_populate thls observed year))"
  by (simp add: Thailand_populate_def year_in_range_def)

lemma Thailand_lunisolar_absent:
  "case Thailand_populate thls observed year of Inl e \<Rightarrow> True
   | Inr es \<Rightarrow> list_all (\<lambda>e.
       (makha_bucha_date thls year = None \<longrightarrow>
          snd e \<noteq> ''Makha Bucha'' \<and> snd e \<noteq> ''Makha Bucha (in lieu)'') \<and>
       (visakha_bucha_date thls year = None \<longrightarrow>
          snd e \<noteq> ''Visakha Bucha'' \<and> snd e \<noteq> ''Visakha Bucha (in lieu)'') \<and>
       (asarnha_bucha_date thls year = None \<longrightarrow>
          snd e \<noteq> ''Asarnha Bucha'' \<and> snd e \<noteq> ''Asarnha Bucha (in lieu)'' \<and>
          snd e \<noteq> ''Buddhist Lent Day (in lieu)'') \<and>
       (khao_phansa_date thls year = None \<longrightarrow> snd e \<noteq> ''Buddhist Lent Day'')) es"
  by (simp add: Thailand_populate_def Thailand_generic_def list_all_If list_all_case_option
      Thailand_add_all HolidayBase_populate_def Thailand_special_holidays_def list.pred_map
      comp_def th_labels Let_def)

lemma absent_label_weaken:
  assumes "case r of Inl e \<Rightarrow> True | Inr es \<Rightarrow> list_all P es"
    and "\<And>e. P e \<Longrightarrow> snd e \<noteq> l"
  shows "labelOf (map_sum id (\<lambda>es. assign es Map.empty) r) d \<noteq> Inr (Some l)"
proof (rule absent_label)
  show "case r of Inl e \<Rightarrow> True | Inr es \<Rightarrow> list_all (\<lambda>e. snd e \<noteq> l) es"
    using assms by (cases r) (auto simp: list_all_iff)
qed

text \<open>
  C9. For every year up to 1940 population returns without any entry. For every later
  year of the date type (up to 9999) population succeeds whatever the lunisolar lookups
  return, and a feast whose lookup is absent leaves no entry, neither the feast itself nor
  its in-lieu day.
\<close>

theorem Thailand_out_of_window:
  "(year \<le> 1940 \<longrightarrow>
      Thailand_populate thls observed year = Inr [] \<and>
      (\<forall>d. labelOf (Thailand_holidays thls observed year) d = Inr None)) \<and>
   (1940 < year \<and> year \<le> 9999 \<longrightarrow> (\<exists>es. Thailand_populate thls observed year = Inr es)) \<and>
   (makha_bucha_date thls year = None \<longrightarrow>
      (\<forall>d. labelOf (Thailand_holidays thls observed year) d \<noteq> Inr (Some ''Makha Bucha'') \<and>
           labelOf (Thailand_holidays thls observed year) d \<noteq> Inr (Some ''Makha Bucha (in lieu)''))) \<and>
   (visakha_bucha_date thls year = None \<longrightarrow>
      (\<forall>d. labelOf (Thailand_holidays thls observed year) d \<noteq> Inr (Some ''Visakha Bucha'') \<and>
           labelOf (Thailand_holidays thls observed year) d \<noteq> Inr (Some ''Visakha Bucha (in lieu)''))) \<and>
   (asarnha_bucha_date thls year = None \<longrightarrow>
      (\<forall>d. labelOf (Thailand_holidays thls observed year) d \<noteq> Inr (Some ''Asarnha Bucha'') \<and>
           labelOf (Thailand_holidays thls observed year) d \<noteq> Inr (Some ''Asarnha Bucha (in lieu)'') \<and>
           labelOf (Thailand_holidays thls observed year) d
             \<noteq> Inr (Some ''Buddhist Lent Day (in lieu)''))) \<and>
   (khao_phansa_date thls year = None \<longrightarrow>
      (\<forall>d. labelOf (Thailand_holidays thls observed year) d \<noteq> Inr (Some ''Buddhist Lent Day'')))"
proof -
  note L = Thailand_lunisolar_absent[where thls = thls and observed = observed and year = year]
  have early: "year \<le> 1940 \<Longrightarrow> Thailand_populate thls observed year = Inr []"
    by (simp add: Thailand_populate_def)
  have none: "year \<le> 1940 \<Longrightarrow> labelOf (Thailand_holidays thls observed year) d = Inr None" for d
    by (simp add: Thailand_holidays_def early labelOf_def assign_Nil)
  have ok: "1940 < year \<and> year \<le> 9999 \<Longrightarrow> \<exists>es. Thailand_populate thls observed year = Inr es"
    using Thailand_populate_Inr[where thls = thls and observed = observed and year = year] by blast
  have m: "makha_bucha_date thls year = None \<Longrightarrow>
      labelOf (Thailand_holidays thls observed year) d \<noteq> Inr (Some ''Makha Bucha'') \<and>
      labelOf (Thailand_holidays thls observed year) d \<noteq> Inr (Some ''Makha Bucha (in lieu)'')" for d
    unfolding Thailand_holidays_def by (intro conjI absent_label_weaken[OF L]) simp_all
  have v: "visakha_bucha_date thls year = None \<Longrightarrow>
      labelOf (Thailand_holidays thls observed year) d \<noteq> Inr (Some ''Visakha Bucha'') \<and>
      labelOf (Thailand_holidays thls observed year) d \<noteq> Inr (Some ''Visakha Bucha (in lieu)'')" for d
    unfolding Thailand_holidays_def by (intro conjI absent_label_weaken[OF L]) simp_all
  have a: "asarnha_bucha_date thls year = None \<Longrightarrow>
      labelOf (Thailand_holidays thls observed year) d \<noteq> Inr (Some ''Asarnha Bucha'') \<and>
      labelOf (Thailand_holidays thls observed year) d \<noteq> Inr (Some ''Asarnha Bucha (in lieu)'') \<and>
      labelOf (Thailand_holidays thls observed year) d \<noteq> Inr (Some ''Buddhist Lent Day (in lieu)'')" for d
    unfolding Thailand_holidays_def by (intro conjI absent_label_weaken[OF L]) simp_all
  have k: "khao_phansa_date thls year = None \<Longrightarrow>
      labelOf (Thailand_holidays thls observed year) d \<noteq> Inr (Some ''Buddhist Lent Day'')" for d
    unfolding Thailand_holidays_def by (intro absent_label_weaken[OF L]) simp_all
  show ?thesis using early none ok m v a k by blast
qed

theorem Thailand_out_of_window_witness:
  "Thailand_populate thls_2011 True 1940 = Inr [] \<and>
   (\<exists>es. Thailand_populate thls_2011 True 2060 = Inr es) \<and>
   (\<forall>d. labelOf (Thailand_holidays thls_2011 True 2060) d \<noteq> Inr (Some ''Makha Bucha'')) \<and>
   (\<forall>d. labelOf (Thailand_holidays thls_2011 True 2060) d \<noteq> Inr (Some ''Buddhist Lent Day''))"
proof -
  have n: "makha_bucha_date thls_2011 2060 = None" "khao_phansa_date thls_2011 2060 = None"
    by (simp_all add: thls_2011_def)
  show ?thesis
    using Thailand_out_of_window[of 1940 thls_2011 True]
      Thailand_out_of_window[of 2060 thls_2011 True] n
    by simp
qed


lemma lunisolar_windowD:
  assumes "lunisolar_window thls year"
  shows "makha_bucha_date thls year = Some d \<Longrightarrow> date year JAN 1 \<le> d \<and> d \<le> date year SEP 30"
    and "visakha_bucha_date thls year = Some d \<Longrightarrow> date year JAN 1 \<le> d \<and> d \<le> date year SEP 30"
    and "asarnha_bucha_date thls year = Some d \<Longrightarrow> date year JAN 1 \<le> d \<and> d \<le> date year SEP 30"
    and "khao_phansa_date thls year = Some d \<Longrightarrow> date year JAN 1 \<le> d \<and> d \<le> date year SEP 30"
  using assms by (simp_all add: lunisolar_window_def)

lemma raeknakhwan_range:
  "raeknakhwan_dates year = Some (m, d) \<Longrightarrow> m = MAY \<and> 7 \<le> d \<and> d \<le> 17"
  by (simp add: raeknakhwan_dates_def split: if_splits)

lemma Thailand_fathers_day_written:
  "assign (Thailand_add_with_observed observed year dt name) Map.empty dt = Some name"
  by (simp add: Thailand_add_with_observed_def Let_def assign_Cons assign_Nil assign_append)

lemma Thailand_fathers_day:
  assumes "1980 \<le> year" "year \<le> 9999" "lunisolar_window thls year"
  shows "labelOf (Thailand_holidays thls observed year) (date year DEC 5)
         = Inr (Some ''National Father's Day'')"
proof -
  note w = lunisolar_windowD[OF assms(3)]
  have r: "year_in_range year" "\<not> year \<le> 1940" using assms by (simp_all add: year_in_range_def)
  have "assign (projr (Thailand_populate thls observed year)) Map.empty (date year DEC 5)
        = Some ''National Father's Day''"
    unfolding Thailand_populate_def Thailand_generic_def using r assms(1)
    apply (simp only: if_False if_True not_True_eq_False simp_thms sum.sel)
    apply (rule assign_later)
    apply (rule assign_later)
    apply (rule assign_later)
    apply (rule assign_later)
    apply (rule assign_later)
    apply (rule assign_later)
    apply (rule assign_later)
    apply (rule assign_later)
    apply (rule assign_later)
    apply (rule assign_later)
    apply (rule assign_later)
    apply (rule assign_later)
    apply (rule assign_later)
    apply (rule assign_later)
    apply (rule assign_later)
    apply (rule assign_later)
    apply (rule assign_written)
    subgoal by (rule Thailand_fathers_day_written)
    subgoal using leap_bounds[of year]
      by (auto simp add: list_all_If list_all_case_option Thailand_add_all date_lin
          dest!: w raeknakhwan_range)
    done
  then show ?thesis
    using r by (simp add: Thailand_holidays_def Thailand_populate_def labelOf_def)
qed


text \<open>
  C8. A date maps to the label of the last assignment made to it: of two assignments to
  the same date, the later one is reported, whatever is assigned to other dates before,
  between and after. For Thailand, in every year from 1980 (to 9999, the last year of the
  date type), December 5 maps to ``National Father's Day'', assigned after ``HM King Bhumibol
  Adulyadej's Birthday''.
\<close>

theorem last_write_wins:
  "(list_all (\<lambda>e. fst e \<noteq> d) later \<longrightarrow>
      assign (es @ [(d, l1)] @ es' @ [(d, l2)] @ later) hm d = Some l2) \<and>
   (1980 \<le> year \<and> year \<le> 9999 \<and> lunisolar_window thls year \<longrightarrow>
      labelOf (Thailand_holidays thls observed year) (date year DEC 5)
        = Inr (Some ''National Father's Day''))"
proof (intro conjI impI)
  assume "list_all (\<lambda>e. fst e \<noteq> d) later"
  then show "assign (es @ [(d, l1)] @ es' @ [(d, l2)] @ later) hm d = Some l2"
    by (simp add: assign_append assign_Cons assign_Nil assign_avoid)
next
  assume "1980 \<le> year \<and> year \<le> 9999 \<and> lunisolar_window thls year"
  then show "labelOf (Thailand_holidays thls observed year) (date year DEC 5)
        = Inr (Some ''National Father's Day'')"
    by (intro Thailand_fathers_day) simp_all
qed

theorem last_write_wins_witness:
  "assign ([(1, ''a'')] @ [(2, ''first'')] @ [(3, ''b'')] @ [(2, ''second'')] @ [(4, ''c'')])
     Map.empty 2 = Some ''second'' \<and>
   labelOf (Thailand_holidays thls_2011 True 2011) (date 2011 DEC 5)
     = Inr (Some ''National Father's Day'')"
proof -
  have w: "lunisolar_window thls_2011 2011" by code_simp
  have a: "list_all (\<lambda>e. fst e \<noteq> 2) [(4::int, ''c'')]" by simp
  show ?thesis
    using last_write_wins[of 2 "[(4, ''c'')]" "[(1, ''a'')]" "''first''" "[(3, ''b'')]" "''second''"
        Map.empty 2011 thls_2011 True] w a
    by simp
qed

lemma assign_overlay:
  "assign ys hm d = (case assign ys Map.empty d of Some l \<Rightarrow> Some l | None \<Rightarrow> hm d)"
proof (induction ys rule: rev_induct)
  case Nil
  show ?case by (simp add: assign_Nil)
next
  case (snoc e ys)
  then show ?case by (simp add: assign_append assign_Cons assign_Nil)
qed

lemma Thailand_2011_special:
  "HolidayBase_populate Thailand_special_holidays 2011
     = [(date 2011 MAY 16, thai_bridge_public_holiday),
        (date 2011 OCT 27, thai_flood_2011_emergency_lockdown),
        (date 2011 OCT 28, thai_flood_2011_emergency_lockdown),
        (date 2011 OCT 31, thai_flood_2011_emergency_lockdown)]"
  by (simp add: HolidayBase_populate_def Thailand_special_holidays_def)

lemma Thailand_2011_generic_avoid:
  assumes "lunisolar_window thls 2011"
  shows "list_all (\<lambda>e. snd e \<noteq> thai_flood_2011_emergency_lockdown \<and>
                       fst e \<noteq> date 2011 OCT 27 \<and> fst e \<noteq> date 2011 OCT 28 \<and>
                       fst e \<noteq> date 2011 OCT 29 \<and> fst e \<noteq> date 2011 OCT 31)
           (Thailand_generic thls observed 2011)"
proof -
  note w = lunisolar_windowD[OF assms]
  show ?thesis
    using leap_bounds[of 2011]
    by (auto simp add: Thailand_generic_def list_all_If list_all_case_option Thailand_add_all
          date_lin thai_flood_2011_emergency_lockdown_def Let_def
          dest!: w raeknakhwan_range)
qed

lemma Thailand_2011_generic_fixed:
  "list_all (\<lambda>e. e \<in> set (Thailand_generic thls observed 2011))
     [(date 2011 JAN 1, ''New Year's Day''),
      (date 2011 APR 6, ''Chakri Memorial Day''),
      (date 2011 APR 13, ''Songkran Festival''),
      (date 2011 APR 14, ''Songkran Festival''),
      (date 2011 APR 15, ''Songkran Festival''),
      (date 2011 MAY 1, ''National Labour Day''),
      (date 2011 MAY 5, ''Coronation Day''),
      (date 2011 AUG 12, ''HM Queen Sirikit's Birthday''),
      (date 2011 AUG 12, ''National Mother's Day''),
      (date 2011 OCT 23, ''Chulalongkorn Memorial Day''),
      (date 2011 DEC 5, ''HM King Bhumibol Adulyadej's Birthday''),
      (date 2011 DEC 5, ''National Father's Day''),
      (date 2011 DEC 10, ''Constitution Day''),
      (date 2011 DEC 31, ''New Year's Eve''),
      (date 2011 MAY 13, ''Royal Ploughing Ceremony'')]"
  by (simp add: Thailand_generic_def Thailand_add_with_observed_def raeknakhwan_dates_def)

lemma Thailand_2011_generic_in_lieu:
  "list_all (\<lambda>e. e \<in> set (Thailand_generic thls True 2011))
     [(date 2011 JAN 3, ''New Year's Day (in lieu)''),
      (date 2011 MAY 2, ''National Labour Day (in lieu)''),
      (date 2011 OCT 24, ''Chulalongkorn Memorial Day (in lieu)''),
      (date 2011 DEC 12, ''Constitution Day (in lieu)'')]"
proof -
  have a: "is_weekend (date 2011 JAN 1)" "is_saturday (date 2011 JAN 1)"
    "date 2011 JAN 1 + 2 = date 2011 JAN 3"
    "is_weekend (date 2011 MAY 1)" "\<not> is_saturday (date 2011 MAY 1)"
    "date 2011 MAY 1 + 1 = date 2011 MAY 2"
    "is_weekend (date 2011 OCT 23)" "\<not> is_saturday (date 2011 OCT 23)"
    "date 2011 OCT 23 + 1 = date 2011 OCT 24"
    "is_weekend (date 2011 DEC 10)" "is_saturday (date 2011 DEC 10)"
    "date 2011 DEC 10 + 2 = date 2011 DEC 12"
    by code_simp+
  show ?thesis
    by (simp add: Thailand_generic_def Thailand_add_with_observed_def raeknakhwan_dates_def a
        Let_def)
qed

lemma Thailand_generic_lunisolar:
  "(\<forall>d. makha_bucha_date thls year = Some d \<longrightarrow>
        (d, ''Makha Bucha'') \<in> set (Thailand_generic thls observed year)) \<and>
   (\<forall>d. visakha_bucha_date thls year = Some d \<longrightarrow>
        (d, ''Visakha Bucha'') \<in> set (Thailand_generic thls observed year)) \<and>
   (\<forall>d. asarnha_bucha_date thls year = Some d \<longrightarrow>
        (d, ''Asarnha Bucha'') \<in> set (Thailand_generic thls observed year)) \<and>
   (\<forall>d. khao_phansa_date thls year = Some d \<longrightarrow>
        (d, ''Buddhist Lent Day'') \<in> set (Thailand_generic thls observed year))"
  by (simp add: Thailand_generic_def Thailand_add_with_observed_def)


lemma Thailand_2011_new_years_eve:
  assumes "lunisolar_window thls 2011"
  shows "assign (Thailand_generic thls observed 2011) Map.empty (date 2011 DEC 31)
         = Some ''New Year's Eve''"
proof -
  note w = lunisolar_windowD[OF assms]
  show ?thesis
    unfolding Thailand_generic_def
    apply (rule assign_later)
    apply (rule assign_later)
    apply (rule assign_later)
    apply (rule assign_later)
    apply (rule assign_later)
    apply (rule assign_later)
    apply (rule assign_later)
    apply (rule assign_later)
    apply (rule assign_later)
    apply (rule assign_later)
    apply (rule assign_later)
    apply (rule assign_later)
    apply (rule assign_later)
    apply (rule assign_later)
    apply (rule assign_later)
    apply (rule assign_later)
    apply (rule assign_later)
    apply (rule assign_written)
    subgoal by (simp add: assign_Cons assign_Nil)
    subgoal using leap_bounds[of 2011]
      by (auto simp add: list_all_If list_all_case_option Thailand_add_all date_lin
          dest!: w raeknakhwan_range)
    done
qed

text \<open>
  C2. The assignments of 2011 are the four of the special table followed by those of the
  generic rules \<open>Thailand_generic\<close>, and the map is the generic map laid over the special
  entries. Every fixed-date rule of 2011, its in-lieu day when \<open>observed\<close> is set, and
  every lunisolar feast the lookup returns is among the generic assignments; none of them
  carries the flood label or falls on October 27, 28, 29 or 31. So the map has the flood
  label on October 27, 28 and 31 and on no other date, no entry on October 29, and, for
  one, ``New Year's Eve'' on December 31.
\<close>

theorem Thailand_2011_floods:
  assumes "lunisolar_window thls 2011"
  shows "Thailand_populate thls observed 2011
           = Inr ([(date 2011 MAY 16, thai_bridge_public_holiday),
                   (date 2011 OCT 27, thai_flood_2011_emergency_lockdown),
                   (date 2011 OCT 28, thai_flood_2011_emergency_lockdown),
                   (date 2011 OCT 31, thai_flood_2011_emergency_lockdown)]
                  @ Thailand_generic thls observed 2011) \<and>
         (\<forall>d. labelOf (Thailand_holidays thls observed 2011) d
            = Inr (case assign (Thailand_generic thls observed 2011) Map.empty d of
                     Some l \<Rightarrow> Some l
                   | None \<Rightarrow>
                       assign [(date 2011 MAY 16, thai_bridge_public_holiday),
                               (date 2011 OCT 27, thai_flood_2011_emergency_lockdown),
                               (date 2011 OCT 28, thai_flood_2011_emergency_lockdown),
                               (date 2011 OCT 31, thai_flood_2011_emergency_lockdown)]
                         Map.empty d)) \<and>
         list_all (\<lambda>e. e \<in> set (Thailand_generic thls observed 2011))
           [(date 2011 JAN 1, ''New Year's Day''),
            (date 2011 APR 6, ''Chakri Memorial Day''),
            (date 2011 APR 13, ''Songkran Festival''),
            (date 2011 APR 14, ''Songkran Festival''),
            (date 2011 APR 15, ''Songkran Festival''),
            (date 2011 MAY 1, ''National Labour Day''),
            (date 2011 MAY 5, ''Coronation Day''),
            (date 2011 AUG 12, ''HM Queen Sirikit's Birthday''),
            (date 2011 AUG 12, ''National Mother's Day''),
            (date 2011 OCT 23, ''Chulalongkorn Memorial Day''),
            (date 2011 DEC 5, ''HM King Bhumibol Adulyadej's Birthday''),
            (date 2011 DEC 5, ''National Father's Day''),
            (date 2011 DEC 10, ''Constitution Day''),
            (date 2011 DEC 31, ''New Year's Eve''),
            (date 2011 MAY 13, ''Royal Ploughing Ceremony'')] \<and>
         (observed \<longrightarrow>
            list_all (\<lambda>e. e \<in> set (Thailand_generic thls observed 2011))
              [(date 2011 JAN 3, ''New Year's Day (in lieu)''),
               (date 2011 MAY 2, ''National Labour Day (in lieu)''),
               (date 2011 OCT 24, ''Chulalongkorn Memorial Day (in lieu)''),
               (date 2011 DEC 12, ''Constitution Day (in lieu)'')]) \<and>
         (\<forall>d. makha_bucha_date thls 2011 = Some d \<longrightarrow>
              (d, ''Makha Bucha'') \<in> set (Thailand_generic thls observed 2011)) \<and>
         (\<forall>d. visakha_bucha_date thls 2011 = Some d \<longrightarrow>
              (d, ''Visakha Bucha'') \<in> set (Thailand_generic thls observed 2011)) \<and>
         (\<forall>d. asarnha_bucha_date thls 2011 = Some d \<longrightarrow>
              (d, ''Asarnha Bucha'') \<in> set (Thailand_generic thls observed 2011)) \<and>
         (\<forall>d. khao_phansa_date thls 2011 = Some d \<longrightarrow>
              (d, ''Buddhist Lent Day'') \<in> set (Thailand_generic thls observed 2011)) \<and>
         list_all (\<lambda>e. snd e \<noteq> thai_flood_2011_emergency_lockdown \<and>
                       fst e \<noteq> date 2011 OCT 27 \<and> fst e \<noteq> date 2011 OCT 28 \<and>
                       fst e \<noteq> date 2011 OCT 29 \<and> fst e \<noteq> date 2011 OCT 31)
           (Thailand_generic thls observed 2011) \<and>
         labelOf (Thailand_holidays thls observed 2011) (date 2011 OCT 27)
           = Inr (Some thai_flood_2011_emergency_lockdown) \<and>
         labelOf (Thailand_holidays thls observed 2011) (date 2011 OCT 28)
           = Inr (Some thai_flood_2011_emergency_lockdown) \<and>
         labelOf (Thailand_holidays thls observed 2011) (date 2011 OCT 31)
           = Inr (Some thai_flood_2011_emergency_lockdown) \<and>
         labelOf (Thailand_holidays thls observed 2011) (date 2011 OCT 29) = Inr None \<and>
         (\<forall>d. labelOf (Thailand_holidays thls observed 2011) d
                = Inr (Some thai_flood_2011_emergency_lockdown) \<longrightarrow>
              d = date 2011 OCT 27 \<or> d = date 2011 OCT 28 \<or> d = date 2011 OCT 31) \<and>
         labelOf (Thailand_holidays thls observed 2011) (date 2011 DEC 31)
           = Inr (Some ''New Year's Eve'')"
proof -
  let ?sp = "[(date 2011 MAY 16, thai_bridge_public_holiday),
              (date 2011 OCT 27, thai_flood_2011_emergency_lockdown),
              (date 2011 OCT 28, thai_flood_2011_emergency_lockdown),
              (date 2011 OCT 31, thai_flood_2011_emergency_lockdown)]"
  let ?g = "Thailand_generic thls observed 2011"
  have r: "year_in_range 2011" "\<not> (2011::int) \<le> 1940" by (simp_all add: year_in_range_def)
  have P: "Thailand_populate thls observed 2011 = Inr (?sp @ ?g)"
    using r by (simp add: Thailand_populate_def Thailand_2011_special)
  have T: "labelOf (Thailand_holidays thls observed 2011) d = Inr (assign (?sp @ ?g) Map.empty d)"
    for d
    by (simp add: Thailand_holidays_def P labelOf_def)
  have O: "assign (?sp @ ?g) Map.empty d
           = (case assign ?g Map.empty d of Some l \<Rightarrow> Some l | None \<Rightarrow> assign ?sp Map.empty d)"
    for d
    unfolding assign_append by (rule assign_overlay)
  note A = Thailand_2011_generic_avoid[OF assms, of observed]
  have av: "list_all (\<lambda>e. fst e \<noteq> date 2011 OCT 27) ?g" "list_all (\<lambda>e. fst e \<noteq> date 2011 OCT 28) ?g"
    "list_all (\<lambda>e. fst e \<noteq> date 2011 OCT 29) ?g" "list_all (\<lambda>e. fst e \<noteq> date 2011 OCT 31) ?g"
    "list_all (\<lambda>e. snd e \<noteq> thai_flood_2011_emergency_lockdown) ?g"
    using A by (auto simp: list_all_iff)
  have d27: "assign (?sp @ ?g) Map.empty (date 2011 OCT 27) = Some thai_flood_2011_emergency_lockdown"
    by (rule assign_written[OF _ av(1)]) (simp add: assign_Cons assign_Nil date_lin)
  have d28: "assign (?sp @ ?g) Map.empty (date 2011 OCT 28) = Some thai_flood_2011_emergency_lockdown"
    by (rule assign_written[OF _ av(2)]) (simp add: assign_Cons assign_Nil date_lin)
  have d31: "assign (?sp @ ?g) Map.empty (date 2011 OCT 31) = Some thai_flood_2011_emergency_lockdown"
    by (rule assign_written[OF _ av(4)]) (simp add: assign_Cons assign_Nil date_lin)
  have d29: "assign (?sp @ ?g) Map.empty (date 2011 OCT 29) = None"
    using av(3) by (simp add: assign_append assign_avoid assign_Cons assign_Nil date_lin)
  have only: "d = date 2011 OCT 27 \<or> d = date 2011 OCT 28 \<or> d = date 2011 OCT 31"
    if "assign (?sp @ ?g) Map.empty d = Some thai_flood_2011_emergency_lockdown" for d
  proof -
    from assign_member[OF that]
    have "(d, thai_flood_2011_emergency_lockdown) \<in> set (?sp @ ?g)" by simp
    moreover have "(d, thai_flood_2011_emergency_lockdown) \<notin> set ?g"
      using av(5) by (auto simp: list_all_iff)
    ultimately show ?thesis
      by (auto simp: thai_bridge_public_holiday_def thai_flood_2011_emergency_lockdown_def)
  qed
  have nye: "assign (?sp @ ?g) Map.empty (date 2011 DEC 31) = Some ''New Year's Eve''"
    by (rule assign_later[OF Thailand_2011_new_years_eve[OF assms]])
  have il: "observed \<Longrightarrow> list_all (\<lambda>e. e \<in> set ?g)
              [(date 2011 JAN 3, ''New Year's Day (in lieu)''),
               (date 2011 MAY 2, ''National Labour Day (in lieu)''),
               (date 2011 OCT 24, ''Chulalongkorn Memorial Day (in lieu)''),
               (date 2011 DEC 12, ''Constitution Day (in lieu)'')]"
    using Thailand_2011_generic_in_lieu[of thls] by simp
  note L = Thailand_generic_lunisolar[of thls 2011 observed]
  show ?thesis
    unfolding T
    apply (intro conjI)
    subgoal by (rule P)
    subgoal using O by simp
    subgoal by (rule Thailand_2011_generic_fixed)
    subgoal using il by blast
    subgoal using L by blast
    subgoal using L by blast
    subgoal using L by blast
    subgoal using L by blast
    subgoal by (rule A)
    subgoal using d27 by simp
    subgoal using d28 by simp
    subgoal using d31 by simp
    subgoal using d29 by simp
    subgoal using only by blast
    subgoal using nye by simp
    done
qed

theorem Thailand_2011_floods_witness:
  "labelOf (Thailand_holidays thls_2011 True 2011) (date 2011 OCT 27)
     = Inr (Some thai_flood_2011_emergency_lockdown) \<and>
   labelOf (Thailand_holidays thls_2011 True 2011) (date 2011 OCT 28)
     = Inr (Some thai_flood_2011_emergency_lockdown) \<and>
   labelOf (Thailand_holidays thls_2011 True 2011) (date 2011 OCT 31)
     = Inr (Some thai_flood_2011_emergency_lockdown) \<and>
   labelOf (Thailand_holidays thls_2011 True 2011) (date 2011 OCT 29) = Inr None \<and>
   labelOf (Thailand_holidays thls_2011 True 2011) (date 2011 DEC 31)
     = Inr (Some ''New Year's Eve'') \<and>
   (date 2011 JAN 1, ''New Year's Day'') \<in> set (Thailand_generic thls_2011 True 2011) \<and>
   (date 2011 JAN 3, ''New Year's Day (in lieu)'') \<in> set (Thailand_generic thls_2011 True 2011) \<and>
   (date 2011 FEB 18, ''Makha Bucha'') \<in> set (Thailand_generic thls_2011 True 2011) \<and>
   labelOf (Thailand_holidays thls_2011 True 2011) (date 2011 JAN 1)
     = Inr (Some ''New Year's Day'')"
proof -
  have w: "lunisolar_window thls_2011 2011" by code_simp
  have m: "makha_bucha_date thls_2011 2011 = Some (date 2011 FEB 18)"
    by (simp add: thls_2011_def)
  have g: "assign (Thailand_generic thls_2011 True 2011) Map.empty (date 2011 JAN 1)
           = Some ''New Year's Day''"
    by code_simp
  note t = Thailand_2011_floods[OF w, of True]
  from t have "labelOf (Thailand_holidays thls_2011 True 2011) (date 2011 JAN 1)
      = Inr (case assign (Thailand_generic thls_2011 True 2011) Map.empty (date 2011 JAN 1) of
               Some l \<Rightarrow> Some l
             | None \<Rightarrow>
                 assign [(date 2011 MAY 16, thai_bridge_public_holiday),
                         (date 2011 OCT 27, thai_flood_2011_emergency_lockdown),
                         (date 2011 OCT 28, thai_flood_2011_emergency_lockdown),
                         (date 2011 OCT 31, thai_flood_2011_emergency_lockdown)]
                   Map.empty (date 2011 JAN 1))"
    by blast
  then have 1: "labelOf (Thailand_holidays thls_2011 True 2011) (date 2011 JAN 1)
            = Inr (Some ''New Year's Day'')"
    by (simp only: g option.case)
  have 2: "(date 2011 FEB 18, ''Makha Bucha'') \<in> set (Thailand_generic thls_2011 True 2011)"
    using t m by blast
  from t have 3: "(date 2011 JAN 1, ''New Year's Day'') \<in> set (Thailand_generic thls_2011 True 2011)"
    "(date 2011 JAN 3, ''New Year's Day (in lieu)'') \<in> set (Thailand_generic thls_2011 True 2011)"
    by simp_all
  show ?thesis using t 1 2 3 by blast
qed


section \<open>Entries stay within the populated year\<close>

lemma days_before_year_next:
  "days_before_year (y + 1) = days_before_year y + 365 + of_bool (is_leap y)"
  using leap_div[of y] by (auto simp add: days_before_year_def Let_def algebra_simps)

lemma year_boundaries:
  "date year JAN 1 - 1 = date (year - 1) DEC 31 \<and> date year DEC 31 + 1 = date (year + 1) JAN 1"
  using days_before_year_next[of year] days_before_year_next[of "year - 1"]
  by (simp add: date_lin)

lemma labelOf_member:
  assumes "labelOf (map_sum id (\<lambda>es. assign es Map.empty) r) d = Inr (Some l)"
  shows "\<exists>es. r = Inr es \<and> (d, l) \<in> set es"
proof (cases r)
  case (Inl e)
  with assms show ?thesis by (simp add: labelOf_def)
next
  case (Inr es)
  with assms have "assign es Map.empty d = Some l" by (simp add: labelOf_def)
  from assign_member[OF this] Inr show ?thesis by simp
qed

lemma within_from_entries:
  assumes "case r of Inl e \<Rightarrow> True | Inr es \<Rightarrow> list_all P es"
    and "labelOf (map_sum id (\<lambda>es. assign es Map.empty) r) d = Inr (Some l)"
  shows "P (d, l)"
proof -
  from labelOf_member[OF assms(2)] obtain es where "r = Inr es" "(d, l) \<in> set es" by blast
  with assms(1) show ?thesis by (auto simp: list_all_iff)
qed

lemma Hungary_within_year:
  "case Hungary_populate observed year of Inl e \<Rightarrow> True
   | Inr es \<Rightarrow> list_all (\<lambda>e. date year JAN 1 \<le> fst e \<and> fst e \<le> date year DEC 31) es"
proof -
  obtain k where k: "0 \<le> k" "k \<le> 34" "easter year = date year 3 22 + k"
      "weekday (easter year) = 6"
    using easter_shape[of year] by blast
  show ?thesis
    using k leap_bounds[of year]
    by (auto simp add: Hungary_populate_def Let_def list_all_If Hungary_add_all date_lin
        rd_weekday_FR_before_sunday)
qed

lemma USGS_within_year:
  "case USGS_populate observed year of Inl e \<Rightarrow> True
   | Inr es \<Rightarrow> list_all (\<lambda>e. date year JAN 1 \<le> fst e \<and> fst e \<le> date year DEC 31) es"
proof -
  obtain k where k: "0 \<le> k" "k \<le> 34" "easter year = date year 3 22 + k"
    using easter_shape[of year] by blast
  note b = rd_weekday_after[of 3 "date year JAN 1" MO] rd_weekday_after[of 3 "date year FEB 1" MO]
    rd_weekday_before[of "-1" "date year MAY 31" MO] rd_weekday_after[of 1 "date year SEP 1" MO]
    rd_weekday_after[of 4 "date year NOV 1" TH]
  show ?thesis
    using k b leap_bounds[of year]
    by (auto simp add: USGS_populate_def Let_def list_all_If USGS_set_all date_lin is_saturday_def)
qed


lemma Thailand_within_year:
  assumes "lunisolar_window thls year"
  shows "case Thailand_populate thls observed year of Inl e \<Rightarrow> True
   | Inr es \<Rightarrow> list_all (\<lambda>e. date year JAN 1 \<le> fst e \<and> fst e \<le> date year DEC 31) es"
proof -
  note w = lunisolar_windowD[OF assms]
  show ?thesis
    using leap_bounds[of year]
    by (auto simp add: Thailand_populate_def Thailand_generic_def Let_def list_all_If
        list_all_case_option
        Thailand_add_all date_lin HolidayBase_populate_def Thailand_special_holidays_def
        list.pred_map comp_def
        dest!: w raeknakhwan_range)
qed

lemma Thailand_new_years_eve_in_lieu:
  "case Thailand_populate thls observed year of Inl e \<Rightarrow> True
   | Inr es \<Rightarrow> list_all (\<lambda>e. snd e = ''New Year's Eve (in lieu)'' \<longrightarrow>
        fst e = date year JAN 2 \<or> fst e = date year JAN 3) es"
  by (simp add: Thailand_populate_def Thailand_generic_def Let_def list_all_If
        list_all_case_option
        Thailand_add_all HolidayBase_populate_def Thailand_special_holidays_def
        list.pred_map comp_def th_labels)


text \<open>
  C10. Every entry of the map that populating year \<open>Y\<close> produces is dated from January 1
  to December 31 of \<open>Y\<close>, for Hungary, for the US government securities market and, with
  lunisolar lookups inside their window, for Thailand; the day before January 1 is December
  31 of \<open>Y - 1\<close> and the day after December 31 is January 1 of \<open>Y + 1\<close>. Thailand's
  ``New Year's Eve (in lieu)'' is on January 2 or January 3 of the populated year.
\<close>

theorem entries_within_year:
  "(\<forall>d l. labelOf (Hungary_holidays observed year) d = Inr (Some l) \<longrightarrow>
      date year JAN 1 \<le> d \<and> d \<le> date year DEC 31) \<and>
   (\<forall>d l. labelOf (USGS_holidays observed year) d = Inr (Some l) \<longrightarrow>
      date year JAN 1 \<le> d \<and> d \<le> date year DEC 31) \<and>
   (lunisolar_window thls year \<longrightarrow>
      (\<forall>d l. labelOf (Thailand_holidays thls observed year) d = Inr (Some l) \<longrightarrow>
         date year JAN 1 \<le> d \<and> d \<le> date year DEC 31)) \<and>
   (\<forall>d. labelOf (Thailand_holidays thls observed year) d = Inr (Some ''New Year's Eve (in lieu)'')
      \<longrightarrow> d = date year JAN 2 \<or> d = date year JAN 3) \<and>
   date year JAN 1 - 1 = date (year - 1) DEC 31 \<and>
   date year DEC 31 + 1 = date (year + 1) JAN 1"
proof -
  have h: "date year JAN 1 \<le> d \<and> d \<le> date year DEC 31"
    if "labelOf (Hungary_holidays observed year) d = Inr (Some l)" for d l
    using within_from_entries[OF Hungary_within_year that[unfolded Hungary_holidays_def]] by simp
  have u: "date year JAN 1 \<le> d \<and> d \<le> date year DEC 31"
    if "labelOf (USGS_holidays observed year) d = Inr (Some l)" for d l
    using within_from_entries[OF USGS_within_year that[unfolded USGS_holidays_def]] by simp
  have t: "date year JAN 1 \<le> d \<and> d \<le> date year DEC 31"
    if "lunisolar_window thls year"
      and "labelOf (Thailand_holidays thls observed year) d = Inr (Some l)" for d l
    using within_from_entries[OF Thailand_within_year[OF that(1)]
        that(2)[unfolded Thailand_holidays_def]] by simp
  have n: "d = date year JAN 2 \<or> d = date year JAN 3"
    if "labelOf (Thailand_holidays thls observed year) d = Inr (Some ''New Year's Eve (in lieu)'')"
    for d
    using within_from_entries[OF Thailand_new_years_eve_in_lieu
        that[unfolded Thailand_holidays_def]] by simp
  show ?thesis
    using h u t n year_boundaries[of year] by blast
qed

theorem entries_within_year_witness:
  "labelOf (Hungary_holidays True 2015) (date 2015 JAN 2) = Inr (Some (ujev @ utani_pihenonap)) \<and>
   date 2015 JAN 1 \<le> date 2015 JAN 2 \<and> date 2015 JAN 2 \<le> date 2015 DEC 31 \<and>
   labelOf (USGS_holidays True 2011) (date 2011 DEC 26) = Inr (Some ''Christmas Day (Observed)'') \<and>
   date 2011 JAN 1 \<le> date 2011 DEC 26 \<and> date 2011 DEC 26 \<le> date 2011 DEC 31 \<and>
   labelOf (Thailand_holidays thls_2011 True 2012) (date 2012 JAN 3)
     = Inr (Some ''New Year's Eve (in lieu)'') \<and>
   date 2012 JAN 1 \<le> date 2012 JAN 3 \<and> date 2012 JAN 3 \<le> date 2012 DEC 31"
proof -
  have h: "labelOf (Hungary_holidays True 2015) (date 2015 JAN 2) = Inr (Some (ujev @ utani_pihenonap))"
    by code_simp
  have u: "labelOf (USGS_holidays True 2011) (date 2011 DEC 26) = Inr (Some ''Christmas Day (Observed)'')"
    by code_simp
  have t: "labelOf (Thailand_holidays thls_2011 True 2012) (date 2012 JAN 3)
     = Inr (Some ''New Year's Eve (in lieu)'')"
    by code_simp
  have w: "lunisolar_window thls_2011 2012" by code_simp
  have 1: "date 2015 JAN 1 \<le> date 2015 JAN 2 \<and> date 2015 JAN 2 \<le> date 2015 DEC 31"
    using entries_within_year[of True 2015 thls_2011] h by blast
  have 2: "date 2011 JAN 1 \<le> date 2011 DEC 26 \<and> date 2011 DEC 26 \<le> date 2011 DEC 31"
    using entries_within_year[of True 2011 thls_2011] u by blast
  have 3: "date 2012 JAN 1 \<le> date 2012 JAN 3 \<and> date 2012 JAN 3 \<le> date 2012 DEC 31"
    using entries_within_year[of True 2012 thls_2011] t w by blast
  show ?thesis using h u t 1 2 3 by simp
qed


end
